theory Spec2Isabelle
  imports Complex_Main "HOL-Library.Word"
begin

section \<open>Platform primitives used by the SDK\<close>

text \<open>
  Strings are lists of code units (\<^typ>\<open>string\<close>).  JavaScript numbers that hold
  seconds, milliseconds, counters and status codes are modelled as mathematical
  integers (exact for every safe integer); delays that involve the random jitter are
  reals.  The keyed hash and the hash of the platform's crypto library are not code of
  the SDK: every definition that calls them takes them as a parameter, the raw 256-bit
  digest being a \<^typ>\<open>256 word\<close>.
\<close>

type_synonym byte = "8 word"
type_synonym hmac_fn = "string \<Rightarrow> string \<Rightarrow> 256 word"
type_synonym hash_fn = "string \<Rightarrow> 256 word"

text \<open>\<^verbatim>\<open>s.split(",")\<close> / \<^verbatim>\<open>strings.Split(s, ",")\<close>: the pieces between separators.\<close>

fun split_on :: "char \<Rightarrow> string \<Rightarrow> string list" where
  "split_on sep [] = [[]]"
| "split_on sep (c # cs) =
     (if c = sep then [] # split_on sep cs
      else (case split_on sep cs of
              p # ps \<Rightarrow> (c # p) # ps
            | [] \<Rightarrow> [[c]]))"

text \<open>\<^verbatim>\<open>s.startsWith(pre)\<close> / \<^verbatim>\<open>strings.HasPrefix(s, pre)\<close>.\<close>

definition startsWith :: "string \<Rightarrow> string \<Rightarrow> bool" where
  "startsWith s pre = (take (length pre) s = pre)"

text \<open>\<^verbatim>\<open>parts.join(sep)\<close> / \<^verbatim>\<open>strings.Join(parts, sep)\<close>.\<close>

fun join :: "string \<Rightarrow> string list \<Rightarrow> string" where
  "join sep [] = []"
| "join sep [p] = p"
| "join sep (p # q # ps) = p @ sep @ join sep (q # ps)"

definition isDigit :: "char \<Rightarrow> bool" where
  "isDigit c = (48 \<le> (of_char c :: nat) \<and> (of_char c :: nat) \<le> 57)"

definition digitVal :: "char \<Rightarrow> nat" where
  "digitVal c = of_char c - 48"

definition digitChar :: "nat \<Rightarrow> char" where
  "digitChar d = char_of (48 + d)"

text \<open>The white space that \<^verbatim>\<open>parseInt\<close> skips, among the code units below 256:
  TAB, LF, VT, FF, CR, SP and NBSP.\<close>

definition isWhiteSpace :: "char \<Rightarrow> bool" where
  "isWhiteSpace c = ((of_char c :: nat) \<in> {9, 10, 11, 12, 13, 32, 160})"

definition digitsValue :: "string \<Rightarrow> nat" where
  "digitsValue ds = foldl (\<lambda>a c. 10 * a + digitVal c) 0 ds"

text \<open>\<^verbatim>\<open>Number.parseInt(s, 10)\<close>: leading white space is skipped, one sign is
  read, then the longest run of decimal digits; what follows is ignored.  \<open>None\<close>
  is \<^verbatim>\<open>NaN\<close> (no digit where one is expected).\<close>

definition parseInt10 :: "string \<Rightarrow> int option" where
  "parseInt10 s =
     (let s1 = dropWhile isWhiteSpace s;
          neg = (s1 \<noteq> [] \<and> hd s1 = CHR ''-'');
          s2 = (if s1 \<noteq> [] \<and> (hd s1 = CHR ''-'' \<or> hd s1 = CHR ''+'') then tl s1 else s1);
          ds = takeWhile isDigit s2
      in if ds = [] then None
         else Some (if neg then - int (digitsValue ds) else int (digitsValue ds)))"

text \<open>Decimal rendering of an integer, as a template literal \<^verbatim>\<open>${n}\<close> and Go's
  \<^verbatim>\<open>%d\<close> print it.\<close>

fun decDigits :: "nat \<Rightarrow> string" where
  "decDigits n = (if n < 10 then [digitChar n] else decDigits (n div 10) @ [digitChar (n mod 10)])"

declare decDigits.simps [simp del]

definition numToString :: "int \<Rightarrow> string" where
  "numToString n = (if n < 0 then CHR ''-'' # decDigits (nat (- n)) else decDigits (nat n))"

text \<open>Hexadecimal: \<^verbatim>\<open>digest("hex")\<close> and \<^verbatim>\<open>hex.EncodeToString\<close> print two lower-case
  digits per byte.\<close>

definition hexDigit :: "nat \<Rightarrow> char" where
  "hexDigit n = (if n < 10 then char_of (48 + n) else char_of (87 + n))"

definition hexByte :: "byte \<Rightarrow> string" where
  "hexByte b = [hexDigit (unat b div 16), hexDigit (unat b mod 16)]"

definition hexEncode :: "byte list \<Rightarrow> string" where
  "hexEncode bs = concat (map hexByte bs)"

definition unhex :: "char \<Rightarrow> nat option" where
  "unhex c =
     (let n = (of_char c :: nat)
      in if 48 \<le> n \<and> n \<le> 57 then Some (n - 48)
         else if 97 \<le> n \<and> n \<le> 102 then Some (n - 87)
         else if 65 \<le> n \<and> n \<le> 70 then Some (n - 55)
         else None)"

text \<open>\<^verbatim>\<open>Buffer.from(s, "hex")\<close> never throws: it decodes pairs of hex digits and
  stops, keeping what it has, at the first pair that is not two hex digits or at a
  trailing single character.\<close>

fun bufferFromHex :: "string \<Rightarrow> byte list" where
  "bufferFromHex (a # b # rest) =
     (case (unhex a, unhex b) of
        (Some x, Some y) \<Rightarrow> of_nat (16 * x + y) # bufferFromHex rest
      | _ \<Rightarrow> [])"
| "bufferFromHex _ = []"

text \<open>The 32 bytes of a 256-bit digest, most significant first.\<close>

definition digestBytes :: "256 word \<Rightarrow> byte list" where
  "digestBytes w = map (\<lambda>i. ucast (drop_bit (8 * (31 - i)) w)) [0..<32]"

text \<open>\<^verbatim>\<open>createHmac("sha256", secret).update(msg).digest("hex")\<close>.\<close>

definition hmacHex :: "hmac_fn \<Rightarrow> string \<Rightarrow> string \<Rightarrow> string" where
  "hmacHex hmac secret msg = hexEncode (digestBytes (hmac secret msg))"

datatype js_exception = RangeError

text \<open>\<^verbatim>\<open>crypto.timingSafeEqual(a, b)\<close> throws when the lengths differ.\<close>

definition timingSafeEqual :: "byte list \<Rightarrow> byte list \<Rightarrow> js_exception + bool" where
  "timingSafeEqual a b = (if length a \<noteq> length b then Inl RangeError else Inr (a = b))"


section \<open>Webhook signatures: src/typescript/src/webhook.ts\<close>

record VerifyWebhookSignatureParams =
  payload :: string
  signature :: string
  secret :: string
  tolerance :: "int option"

text \<open>\<open>date_now\<close> is the value of \<^verbatim>\<open>Date.now()\<close> (milliseconds) at the call.  The
  result is \<open>Inr\<close> of the boolean returned, or \<open>Inl\<close> of an exception that escapes.\<close>

definition verifyWebhookSignature ::
  "hmac_fn \<Rightarrow> int \<Rightarrow> VerifyWebhookSignatureParams \<Rightarrow> js_exception + bool" where
  "verifyWebhookSignature hmac date_now params =
     (let tol = (case tolerance params of None \<Rightarrow> 300 | Some x \<Rightarrow> x)
      in if payload params = [] \<or> signature params = [] \<or> secret params = [] then Inr False
         else
           let parts = split_on CHR '','' (signature params);
               timestampPart = find (\<lambda>p. startsWith p ''t='') parts;
               signaturePart = find (\<lambda>p. startsWith p ''v1='') parts
           in case (timestampPart, signaturePart) of
                (Some tp, Some sp) \<Rightarrow>
                  let timestamp = drop 2 tp;
                      expectedSignature = drop 3 sp
                  in if timestamp = [] \<or> expectedSignature = [] then Inr False
                     else
                       (case parseInt10 timestamp of
                          None \<Rightarrow> Inr False
                        | Some timestampNum \<Rightarrow>
                            let now = date_now div 1000;
                                age = \<bar>now - timestampNum\<bar>
                            in if age > tol then Inr False
                               else
                                 let signedPayload = timestamp @ ''.'' @ payload params;
                                     computedHmac = hmacHex hmac (secret params) signedPayload;
                                     a = bufferFromHex computedHmac;
                                     b = bufferFromHex expectedSignature
                                 in (case (if length a \<noteq> length b then Inr False
                                           else timingSafeEqual a b) of
                                       Inl _ \<Rightarrow> Inr False
                                     | Inr r \<Rightarrow> Inr r))
              | _ \<Rightarrow> Inr False)"

text \<open>The \<open>timestamp\<close> argument is given (\<^verbatim>\<open>timestamp ?? ...\<close> is not modelled: the
  default reads the clock).\<close>

definition constructWebhookSignature :: "hmac_fn \<Rightarrow> string \<Rightarrow> string \<Rightarrow> int \<Rightarrow> string" where
  "constructWebhookSignature hmac payload' secret' ts =
     (let signedPayload = numToString ts @ ''.'' @ payload';
          hm = hmacHex hmac secret' signedPayload
      in ''t='' @ numToString ts @ '',v1='' @ hm)"



section \<open>Webhook signatures: src/go/escalation/webhook.go\<close>

text \<open>Go's \<^verbatim>\<open>int64\<close> arithmetic wraps around.\<close>

definition sub64 :: "int \<Rightarrow> int \<Rightarrow> int" where
  "sub64 a b = sint (word_of_int a - word_of_int b :: 64 word)"

definition add64 :: "int \<Rightarrow> int \<Rightarrow> int" where
  "add64 a b = sint (word_of_int a + word_of_int b :: 64 word)"

definition mul64 :: "int \<Rightarrow> int \<Rightarrow> int" where
  "mul64 a b = sint (word_of_int a * word_of_int b :: 64 word)"

text \<open>\<^verbatim>\<open>strconv.ParseInt(s, 10, 64)\<close>: one optional sign, then digits only and at
  least one; \<open>None\<close> is a syntax or range error.\<close>

definition strconv_ParseInt :: "string \<Rightarrow> int option" where
  "strconv_ParseInt s =
     (let neg = (s \<noteq> [] \<and> hd s = CHR ''-'');
          ds = (if s \<noteq> [] \<and> (hd s = CHR ''-'' \<or> hd s = CHR ''+'') then tl s else s)
      in if ds = [] \<or> \<not> list_all isDigit ds then None
         else
           let v = (if neg then - int (digitsValue ds) else int (digitsValue ds))
           in if v < - (2 ^ 63) \<or> 2 ^ 63 - 1 < v then None else Some v)"

text \<open>\<^verbatim>\<open>hex.DecodeString\<close>: an error (\<open>None\<close>) on an odd length or on any character
  that is not a hex digit.\<close>

fun hex_DecodeString :: "string \<Rightarrow> byte list option" where
  "hex_DecodeString [] = Some []"
| "hex_DecodeString [a] = None"
| "hex_DecodeString (a # b # rest) =
     (case (unhex a, unhex b) of
        (Some x, Some y) \<Rightarrow> map_option ((#) (of_nat (16 * x + y))) (hex_DecodeString rest)
      | _ \<Rightarrow> None)"

text \<open>\<open>tolerance'\<close> is a \<^verbatim>\<open>time.Duration\<close> (nanoseconds); \<^verbatim>\<open>tolerance.Seconds()\<close> is
  its value divided by \<open>10\<^sup>9\<close>.  \<open>time_now\<close> is \<^verbatim>\<open>time.Now().Unix()\<close>.\<close>

definition VerifyWebhookSignature ::
  "hmac_fn \<Rightarrow> int \<Rightarrow> string \<Rightarrow> string \<Rightarrow> string \<Rightarrow> int \<Rightarrow> bool" where
  "VerifyWebhookSignature hmac time_now payload' signature' secret' tolerance' =
     (if payload' = [] \<or> signature' = [] \<or> secret' = [] then False
      else
        let (timestampStr, expectedSig) =
              foldl (\<lambda>(ts, es) part.
                       if startsWith part ''t='' then (drop 2 part, es)
                       else if startsWith part ''v1='' then (ts, drop 3 part)
                       else (ts, es))
                    ([], []) (split_on CHR '','' signature')
        in if timestampStr = [] \<or> expectedSig = [] then False
           else
             (case strconv_ParseInt timestampStr of
                None \<Rightarrow> False
              | Some timestampNum \<Rightarrow>
                  if tolerance' > 0
                     \<and> real_of_int \<bar>sub64 time_now timestampNum\<bar> > real_of_int tolerance' / 10 ^ 9
                  then False
                  else
                    let signedPayload = timestampStr @ ''.'' @ payload';
                        computedHMAC = hmacHex hmac secret' signedPayload
                    in (case hex_DecodeString expectedSig of
                          None \<Rightarrow> False
                        | Some expectedBytes \<Rightarrow>
                            (case hex_DecodeString computedHMAC of
                               None \<Rightarrow> False
                             | Some computedBytes \<Rightarrow> computedBytes = expectedBytes))))"

text \<open>A \<open>timestamp\<close> of 0 stands for the current time.\<close>

definition ConstructWebhookSignature :: "hmac_fn \<Rightarrow> int \<Rightarrow> string \<Rightarrow> string \<Rightarrow> int \<Rightarrow> string" where
  "ConstructWebhookSignature hmac time_now payload' secret' timestamp =
     (let ts = (if timestamp = 0 then time_now else timestamp);
          signedPayload = numToString ts @ ''.'' @ payload';
          hmacHex' = hmacHex hmac secret' signedPayload
      in ''t='' @ numToString ts @ '',v1='' @ hmacHex')"


section \<open>Retry with backoff: the TypeScript retry module (src/unnamed/part_002)\<close>

datatype BackoffStrategy = BackoffExponential | BackoffLinear | BackoffNone

record RetryConfig =
  maxRetries :: int
  backoff :: BackoffStrategy
  baseDelayMs :: "real option"
  maxDelayMs :: "real option"

definition isRetryableStatusCode :: "int \<Rightarrow> bool" where
  "isRetryableStatusCode statusCode =
     (statusCode = 429 \<or> (statusCode \<ge> 500 \<and> statusCode \<le> 599))"

text \<open>A number that may be \<^verbatim>\<open>NaN\<close> (what \<^verbatim>\<open>parseInt\<close> of a malformed Retry-After
  header leaves in \<open>retryAfterSeconds\<close>).\<close>

datatype js_number = NaN | Num real

text \<open>\<^verbatim>\<open>retryAfterSeconds !== undefined && retryAfterSeconds > 0\<close>.\<close>

definition serverHint :: "js_number option \<Rightarrow> real option" where
  "serverHint retryAfterSeconds =
     (case retryAfterSeconds of
        Some (Num h) \<Rightarrow> if h > 0 then Some h else None
      | _ \<Rightarrow> None)"

text \<open>\<^verbatim>\<open>Math.round\<close> rounds half up.\<close>

definition mathRound :: "real \<Rightarrow> real" where
  "mathRound x = of_int \<lfloor>x + 1 / 2\<rfloor>"

text \<open>The \<^verbatim>\<open>switch\<close> on the strategy: the delay before jitter.\<close>

definition preJitterDelay :: "BackoffStrategy \<Rightarrow> real \<Rightarrow> nat \<Rightarrow> real" where
  "preJitterDelay b baseDelay attempt =
     (case b of
        BackoffExponential \<Rightarrow> baseDelay * 2 ^ attempt
      | BackoffLinear \<Rightarrow> baseDelay * (real attempt + 1)
      | BackoffNone \<Rightarrow> 0)"

text \<open>\<^verbatim>\<open>delayMs + Math.random() * delayMs * 0.5\<close>, before the clamp.  The source
  computes in IEEE doubles; here the arithmetic is exact.  The two agree where every
  intermediate value is a double; the rounding of doubles, and \<^verbatim>\<open>Infinity\<close> and
  \<^verbatim>\<open>NaN\<close> (from attempt 1024 on), are not modelled, and nothing below is claimed of
  this value where they matter.\<close>

definition postJitterDelay :: "real \<Rightarrow> BackoffStrategy \<Rightarrow> real \<Rightarrow> nat \<Rightarrow> real" where
  "postJitterDelay random b baseDelay attempt =
     (let delayMs = preJitterDelay b baseDelay attempt;
          jitter = random * delayMs * 0.5
      in delayMs + jitter)"

text \<open>\<open>random\<close> is the value \<^verbatim>\<open>Math.random()\<close> returns if it is called.\<close>

definition calculateDelay :: "real \<Rightarrow> nat \<Rightarrow> RetryConfig \<Rightarrow> js_number option \<Rightarrow> real" where
  "calculateDelay random attempt config retryAfterSeconds =
     (let baseDelay = (case baseDelayMs config of None \<Rightarrow> 1000 | Some b \<Rightarrow> b);
          maxDelay = (case maxDelayMs config of None \<Rightarrow> 30000 | Some m \<Rightarrow> m)
      in case serverHint retryAfterSeconds of
           Some h \<Rightarrow> min (h * 1000) maxDelay
         | None \<Rightarrow>
             (case backoff config of
                BackoffNone \<Rightarrow> 0
              | _ \<Rightarrow> mathRound (min (postJitterDelay random (backoff config) baseDelay attempt)
                                    maxDelay)))"

text \<open>The fields of the SDK's error objects (errors.ts): \<open>name\<close>, \<open>message\<close> and
  \<open>cause\<close> of \<^verbatim>\<open>Error\<close>; \<open>statusCode\<close>, \<open>requestId\<close> and \<open>body\<close> of
  \<^verbatim>\<open>EscalationError\<close>; \<open>timeoutMs\<close> of \<^verbatim>\<open>TimeoutError\<close>.  A body and a cause are
  kept as text.\<close>

record sdk_error =
  errName :: string
  errMessage :: string
  errCause :: "string option"
  errStatusCode :: "int option"
  errRequestId :: "string option"
  errBody :: "string option"
  errTimeoutMs :: "int option"

text \<open>\<^verbatim>\<open>new Error(msg)\<close>.\<close>

definition newError :: "string \<Rightarrow> sdk_error" where
  "newError msg = \<lparr>errName = ''Error'', errMessage = msg, errCause = None,
                   errStatusCode = None, errRequestId = None, errBody = None,
                   errTimeoutMs = None\<rparr>"

record 'a AttemptResult =
  response :: "'a option"
  statusCode :: "int option"
  error :: "sdk_error option"
  retryAfterSeconds :: "js_number option"
  shouldRetry :: bool

text \<open>What a run of the executor did: what it returned (\<open>Inr\<close>) or threw (\<open>Inl\<close>),
  the attempt numbers it passed to \<open>fn\<close>, in order, and the delays it slept.\<close>

record 'a retry_run =
  outcome :: "sdk_error + 'a"
  calls :: "nat list"
  sleeps :: "real list"

text \<open>The \<^verbatim>\<open>for\<close> loop of \<^verbatim>\<open>executeWithRetry\<close> from a given \<open>attempt\<close>.  \<open>fn i\<close> is
  what the \<open>i\<close>-th call of the operation resolves to (\<open>Inr\<close>) or rejects with
  (\<open>Inl\<close>); \<open>random i\<close> is the jitter draw after attempt \<open>i\<close>.\<close>

function executeWithRetry_from ::
  "(nat \<Rightarrow> sdk_error + 'a AttemptResult) \<Rightarrow> (nat \<Rightarrow> real) \<Rightarrow> RetryConfig \<Rightarrow> nat
     \<Rightarrow> sdk_error option \<Rightarrow> 'a retry_run" where
  "executeWithRetry_from fn random config attempt lastError =
     (if int attempt \<le> maxRetries config then
        (case fn attempt of
           Inl thrown \<Rightarrow> \<lparr>outcome = Inl thrown, calls = [attempt], sleeps = []\<rparr>
         | Inr result \<Rightarrow>
             if \<not> shouldRetry result \<or> int attempt = maxRetries config then
               (case response result of
                  Some r \<Rightarrow> \<lparr>outcome = Inr r, calls = [attempt], sleeps = []\<rparr>
                | None \<Rightarrow>
                    \<lparr>outcome = Inl (case error result of
                                      Some e \<Rightarrow> e
                                    | None \<Rightarrow>
                                        (case lastError of
                                           Some e \<Rightarrow> e
                                         | None \<Rightarrow> newError ''Request failed after all retries'')),
                     calls = [attempt], sleeps = []\<rparr>)
             else
               let delayMs = calculateDelay (random attempt) attempt config
                               (retryAfterSeconds result);
                   rest = executeWithRetry_from fn random config (Suc attempt) (error result)
               in rest\<lparr>calls := attempt # calls rest,
                       sleeps := (if delayMs > 0 then [delayMs] else []) @ sleeps rest\<rparr>)
      else \<lparr>outcome = Inl (case lastError of
                              Some e \<Rightarrow> e
                            | None \<Rightarrow> newError ''Request failed after all retries''),
            calls = [], sleeps = []\<rparr>)"
  by pat_completeness auto
termination
  by (relation "measure (\<lambda>(fn, random, config, attempt, lastError).
                   nat (maxRetries config + 1 - int attempt))") auto

declare executeWithRetry_from.simps [simp del]

definition executeWithRetry ::
  "(nat \<Rightarrow> sdk_error + 'a AttemptResult) \<Rightarrow> (nat \<Rightarrow> real) \<Rightarrow> RetryConfig \<Rightarrow> 'a retry_run" where
  "executeWithRetry fn random config = executeWithRetry_from fn random config 0 None"



section \<open>Retry with backoff: the Go retry code (src/go/escalation/types.go)\<close>

text \<open>Durations are \<^verbatim>\<open>int64\<close> nanoseconds.\<close>

record go_RetryConfig =
  MaxRetries :: int
  Backoff :: BackoffStrategy
  BaseDelay :: int
  MaxDelay :: int

text \<open>The conversion of a \<^verbatim>\<open>float64\<close> to \<^verbatim>\<open>int64\<close> truncates toward zero; out of
  range the result depends on the platform (here: the amd64 value).  The rounding of
  \<^verbatim>\<open>float64\<close> itself is not modelled.\<close>

definition int64_of_float :: "real \<Rightarrow> int" where
  "int64_of_float x =
     (let t = (if x \<ge> 0 then \<lfloor>x\<rfloor> else \<lceil>x\<rceil>)
      in if - (2 ^ 63) \<le> t \<and> t < 2 ^ 63 then t else - (2 ^ 63))"

definition go_calculateDelay :: "real \<Rightarrow> nat \<Rightarrow> go_RetryConfig \<Rightarrow> int \<Rightarrow> int" where
  "go_calculateDelay rand_Float64 attempt config retryAfter =
     (if retryAfter > 0 then
        (if retryAfter > MaxDelay config then MaxDelay config else retryAfter)
      else if Backoff config = BackoffNone then 0
      else
        let delay = (case Backoff config of
                       BackoffLinear \<Rightarrow> mul64 (BaseDelay config) (int attempt + 1)
                     | _ \<Rightarrow> mul64 (BaseDelay config) (int64_of_float (2 ^ attempt)));
            jitter = int64_of_float (rand_Float64 * real_of_int delay * 0.5);
            delay' = add64 delay jitter
        in if delay' > MaxDelay config then MaxDelay config else delay')"

text \<open>An error returned by \<^verbatim>\<open>retryDo\<close>: one that \<open>fn\<close> returned, or \<^verbatim>\<open>ctx.Err()\<close>.\<close>

datatype 'e go_error = FnError 'e | ContextError

text \<open>The context as \<^verbatim>\<open>retryDo\<close> observes it: \<open>ctxErr i\<close> says that \<^verbatim>\<open>ctx.Err()\<close>
  is not nil when it is read after attempt \<open>i\<close>; \<open>ctxDone i\<close> says that, in the wait
  after attempt \<open>i\<close>, \<^verbatim>\<open>ctx.Done()\<close> is received before the timer fires.\<close>

record go_context =
  ctxErr :: "nat \<Rightarrow> bool"
  ctxDone :: "nat \<Rightarrow> bool"

record ('b, 'e) go_run =
  go_result :: "'b option \<times> 'e go_error option"
  go_calls :: "nat list"
  go_waits :: "int list"

text \<open>The loop of \<^verbatim>\<open>retryDo\<close> from a given \<open>attempt\<close>; \<open>fn i\<close> is the tuple (body,
  status code, Retry-After, error) of the \<open>i\<close>-th call.\<close>

function retryDo_from ::
  "go_context \<Rightarrow> (nat \<Rightarrow> real) \<Rightarrow> go_RetryConfig \<Rightarrow> (nat \<Rightarrow> 'b \<times> int \<times> int \<times> 'e option)
     \<Rightarrow> nat \<Rightarrow> 'e option \<Rightarrow> ('b, 'e) go_run" where
  "retryDo_from ctx rnd config fn attempt lastErr =
     (if int attempt \<le> MaxRetries config then
        (case fn attempt of
           (body, statusCode', retryAfter, err) \<Rightarrow>
             (case err of
                None \<Rightarrow> \<lparr>go_result = (Some body, None), go_calls = [attempt], go_waits = []\<rparr>
              | Some e \<Rightarrow>
                  if statusCode' > 0 \<and> \<not> isRetryableStatusCode statusCode' then
                    \<lparr>go_result = (None, Some (FnError e)), go_calls = [attempt], go_waits = []\<rparr>
                  else if int attempt = MaxRetries config then
                    \<lparr>go_result = (None, Some (FnError e)), go_calls = [attempt], go_waits = []\<rparr>
                  else if statusCode' = 0 \<and> ctxErr ctx attempt then
                    \<lparr>go_result = (None, Some (FnError e)), go_calls = [attempt], go_waits = []\<rparr>
                  else
                    let delay = go_calculateDelay (rnd attempt) attempt config retryAfter
                    in if delay > 0 \<and> ctxDone ctx attempt then
                         \<lparr>go_result = (None, Some ContextError), go_calls = [attempt],
                          go_waits = []\<rparr>
                       else
                         let rest = retryDo_from ctx rnd config fn (Suc attempt) (Some e)
                         in rest\<lparr>go_calls := attempt # go_calls rest,
                                 go_waits := (if delay > 0 then [delay] else []) @ go_waits rest\<rparr>))
      else \<lparr>go_result = (None, map_option FnError lastErr), go_calls = [], go_waits = []\<rparr>)"
  by pat_completeness auto
termination
  by (relation "measure (\<lambda>(ctx, rnd, config, fn, attempt, lastErr).
                   nat (MaxRetries config + 1 - int attempt))") auto

declare retryDo_from.simps [simp del]

definition retryDo ::
  "go_context \<Rightarrow> (nat \<Rightarrow> real) \<Rightarrow> go_RetryConfig \<Rightarrow> (nat \<Rightarrow> 'b \<times> int \<times> int \<times> 'e option)
     \<Rightarrow> ('b, 'e) go_run" where
  "retryDo ctx rnd config fn = retryDo_from ctx rnd config fn 0 None"


section \<open>Waiting for completion: the TypeScript client (src/unnamed/part_003)\<close>

datatype TaskStatus =
  TaskStatusPosted | TaskStatusAssigned | TaskStatusSubmitted | TaskStatusVerified
  | TaskStatusFailed | TaskStatusCancelled | TaskStatusExpired

text \<open>Of a task, the loop reads the status only.\<close>

record Task =
  taskId :: string
  status :: TaskStatus

record WaitForCompletionOptions =
  pollIntervalMs :: "int option"
  timeoutMs :: "int option"

text \<open>\<^verbatim>\<open>terminalStatuses.has(task.status)\<close>.\<close>

definition isTerminal :: "TaskStatus \<Rightarrow> bool" where
  "isTerminal s =
     (s = TaskStatusVerified \<or> s = TaskStatusFailed \<or> s = TaskStatusCancelled
      \<or> s = TaskStatusExpired)"

text \<open>\<^verbatim>\<open>new TimeoutError(message, { timeoutMs })\<close>: the constructor passes its base
  class the cause only, and none is given here.\<close>

definition newTimeoutError :: "string \<Rightarrow> int \<Rightarrow> sdk_error" where
  "newTimeoutError msg ms =
     \<lparr>errName = ''TimeoutError'', errMessage = msg, errCause = None,
      errStatusCode = None, errRequestId = None, errBody = None, errTimeoutMs = Some ms\<rparr>"

text \<open>What the loop meets: \<open>fetch k\<close> is what the \<open>k\<close>-th \<^verbatim>\<open>this.get(taskId)\<close> resolves
  to or rejects with, \<open>fetchMs k\<close> the milliseconds it takes, \<open>oversleepMs k\<close> the
  milliseconds by which the \<open>k\<close>-th timer fires late.\<close>

record wait_env =
  fetch :: "nat \<Rightarrow> sdk_error + Task"
  fetchMs :: "nat \<Rightarrow> nat"
  oversleepMs :: "nat \<Rightarrow> nat"

text \<open>Node's \<^verbatim>\<open>setTimeout\<close> waits at least one millisecond, and one millisecond when
  the delay is out of its range.\<close>

definition setTimeoutMs :: "int \<Rightarrow> int" where
  "setTimeoutMs d = (if 1 \<le> d \<and> d \<le> 2147483647 then d else 1)"

text \<open>What a wait did: what it returned or threw, the clock when it did, the statuses
  it fetched, in order, and the delays it asked the timer for.\<close>

record wait_run =
  waitOutcome :: "sdk_error + Task"
  finishedAt :: int
  observed :: "TaskStatus list"
  timers :: "int list"

function waitForCompletion_from ::
  "wait_env \<Rightarrow> string \<Rightarrow> int \<Rightarrow> int \<Rightarrow> int \<Rightarrow> nat \<Rightarrow> int \<Rightarrow> wait_run" where
  "waitForCompletion_from env tid pollInterval timeout deadline k now =
     (if now < deadline then
        (case fetch env k of
           Inl thrown \<Rightarrow>
             \<lparr>waitOutcome = Inl thrown, finishedAt = now + int (fetchMs env k), observed = [],
              timers = []\<rparr>
         | Inr task \<Rightarrow>
             let now1 = now + int (fetchMs env k)
             in if isTerminal (status task) then
                  \<lparr>waitOutcome = Inr task, finishedAt = now1, observed = [status task],
                   timers = []\<rparr>
                else
                  let remaining = deadline - now1
                  in if remaining \<le> 0 then
                       \<lparr>waitOutcome =
                          Inl (newTimeoutError
                                 (''Task '' @ tid @ '' did not reach a terminal state within ''
                                  @ numToString timeout @ ''ms'') timeout),
                        finishedAt = now1, observed = [status task], timers = []\<rparr>
                     else
                       let d = min pollInterval remaining;
                           now2 = now1 + setTimeoutMs d + int (oversleepMs env k);
                           rest = waitForCompletion_from env tid pollInterval timeout deadline
                                    (Suc k) now2
                       in rest\<lparr>observed := status task # observed rest,
                               timers := d # timers rest\<rparr>)
      else
        \<lparr>waitOutcome =
           Inl (newTimeoutError
                  (''Task '' @ tid @ '' did not reach a terminal state within ''
                   @ numToString timeout @ ''ms'') timeout),
         finishedAt = now, observed = [], timers = []\<rparr>)"
  by pat_completeness auto
termination
  by (relation "measure (\<lambda>(env, tid, pollInterval, timeout, deadline, k, now).
                   nat (deadline - now))") (auto simp: setTimeoutMs_def)

declare waitForCompletion_from.simps [simp del]

text \<open>\<open>date_now\<close> is the clock at the call.\<close>

definition waitForCompletion ::
  "wait_env \<Rightarrow> int \<Rightarrow> string \<Rightarrow> WaitForCompletionOptions option \<Rightarrow> wait_run" where
  "waitForCompletion env date_now tid options =
     (let pollInterval = (case options of
                            None \<Rightarrow> 2000
                          | Some opts \<Rightarrow> (case pollIntervalMs opts of None \<Rightarrow> 2000 | Some v \<Rightarrow> v));
          timeout = (case options of
                       None \<Rightarrow> 600000
                     | Some opts \<Rightarrow> (case timeoutMs opts of None \<Rightarrow> 600000 | Some v \<Rightarrow> v));
          deadline = date_now + timeout
      in waitForCompletion_from env tid pollInterval timeout deadline 0 date_now)"


section \<open>Idempotency keys: src/unnamed/part_003 and src/go/escalation/client.go\<close>

definition generateIdempotencyKey :: "hash_fn \<Rightarrow> string \<Rightarrow> string list \<Rightarrow> string" where
  "generateIdempotencyKey sha256 namespace parts =
     (let input = join '':'' parts;
          hash = take 32 (hexEncode (digestBytes (sha256 input)))
      in namespace @ '':'' @ hash)"

text \<open>Go prints the first 16 bytes of the digest with \<^verbatim>\<open>%x\<close>.\<close>

definition GenerateIdempotencyKey :: "hash_fn \<Rightarrow> string \<Rightarrow> string list \<Rightarrow> string" where
  "GenerateIdempotencyKey sha256 namespace parts =
     (let input = join '':'' parts;
          hash = digestBytes (sha256 input)
      in namespace @ '':'' @ hexEncode (take 16 hash))"


section \<open>Hexadecimal and decimal round trips\<close>

lemma unhex_hexDigit: "n < 16 \<Longrightarrow> unhex (hexDigit n) = Some n"
  by (auto simp: unhex_def hexDigit_def Let_def)

lemma byte_recompose: "(of_nat (16 * (unat b div 16) + unat b mod 16) :: byte) = b"
  by simp

lemma byte_hi: "unat (b::byte) div 16 < 16"
  using unsigned_less[of b, where ?'a=nat] by simp

lemma bufferFromHex_hexByte: "bufferFromHex (hexByte b @ rest) = b # bufferFromHex rest"
  by (simp add: hexByte_def unhex_hexDigit byte_hi)

lemma bufferFromHex_hexEncode_append:
  "bufferFromHex (hexEncode bs @ rest) = bs @ bufferFromHex rest"
  by (induction bs) (simp_all add: hexEncode_def bufferFromHex_hexByte)

lemma bufferFromHex_hexEncode: "bufferFromHex (hexEncode bs) = bs"
  using bufferFromHex_hexEncode_append[of bs "[]"] by simp

lemma bufferFromHex_junk: "unhex c = None \<Longrightarrow> bufferFromHex (c # rest) = []"
  by (cases rest) simp_all

lemma length_digestBytes: "length (digestBytes w) = 32"
  by (simp add: digestBytes_def)

lemma hexEncode_nonempty: "bs \<noteq> [] \<Longrightarrow> hexEncode bs \<noteq> []"
  by (cases bs) (simp_all add: hexEncode_def hexByte_def)

lemma hmacHex_nonempty: "hmacHex hmac k m \<noteq> []"
proof -
  have "digestBytes (hmac k m) \<noteq> []"
    using length_digestBytes[of "hmac k m"] by auto
  then show ?thesis
    by (simp add: hmacHex_def hexEncode_nonempty)
qed


lemma isDigit_digitChar: "d < 10 \<Longrightarrow> isDigit (digitChar d)"
  by (simp add: isDigit_def digitChar_def)

lemma digitVal_digitChar: "d < 10 \<Longrightarrow> digitVal (digitChar d) = d"
  by (simp add: digitVal_def digitChar_def)

lemma digitsValue_snoc: "digitsValue (ds @ [c]) = 10 * digitsValue ds + digitVal c"
  by (simp add: digitsValue_def)

lemma decDigits_nonempty: "decDigits n \<noteq> []"
  by (induction n rule: decDigits.induct) (subst decDigits.simps, simp)

lemma decDigits_all_digits: "list_all isDigit (decDigits n)"
proof (induction n rule: decDigits.induct)
  case (1 n)
  show ?case
  proof (cases "n < 10")
    case True
    then show ?thesis by (subst decDigits.simps) (simp add: isDigit_digitChar)
  next
    case False
    with 1 show ?thesis by (subst decDigits.simps) (simp add: isDigit_digitChar)
  qed
qed

lemma digitsValue_decDigits: "digitsValue (decDigits n) = n"
proof (induction n rule: decDigits.induct)
  case (1 n)
  show ?case
  proof (cases "n < 10")
    case True
    then show ?thesis
      by (subst decDigits.simps) (simp add: digitsValue_def digitVal_digitChar)
  next
    case False
    with 1 show ?thesis
      by (subst decDigits.simps) (simp add: digitsValue_snoc digitVal_digitChar)
  qed
qed

lemma takeWhile_all: "list_all P xs \<Longrightarrow> takeWhile P xs = xs"
  by (induction xs) simp_all

lemma isDigit_not_special:
  "isDigit c \<Longrightarrow> \<not> isWhiteSpace c \<and> c \<noteq> CHR ''-'' \<and> c \<noteq> CHR ''+'' \<and> c \<noteq> CHR '',''"
  by (auto simp: isDigit_def isWhiteSpace_def)

lemma hd_decDigits_digit: "isDigit (hd (decDigits n))"
  using decDigits_nonempty[of n] decDigits_all_digits[of n]
  by (cases "decDigits n") simp_all

lemma parseInt10_numToString: "parseInt10 (numToString t) = Some t"
proof (cases "t < 0")
  case True
  have ws: "\<not> isWhiteSpace CHR ''-''" by (simp add: isWhiteSpace_def)
  from True show ?thesis
    by (simp add: parseInt10_def numToString_def ws Let_def
        takeWhile_all[OF decDigits_all_digits] decDigits_nonempty digitsValue_decDigits)
next
  case False
  obtain c cs where cs: "decDigits (nat t) = c # cs"
    using decDigits_nonempty[of "nat t"] by (cases "decDigits (nat t)") auto
  have c: "isDigit c" using hd_decDigits_digit[of "nat t"] cs by simp
  have tw: "takeWhile isDigit (c # cs) = c # cs"
    using takeWhile_all[OF decDigits_all_digits[of "nat t"]] cs by simp
  have dv: "digitsValue (c # cs) = nat t"
    using digitsValue_decDigits[of "nat t"] cs by simp
  from False isDigit_not_special[OF c] show ?thesis
    by (simp add: parseInt10_def numToString_def Let_def cs tw dv del: takeWhile.simps)
qed

lemma split_on_no_sep: "sep \<notin> set a \<Longrightarrow> split_on sep a = [a]"
  by (induction a) auto

lemma split_on_first: "sep \<notin> set a \<Longrightarrow> split_on sep (a @ sep # rest) = a # split_on sep rest"
  by (induction a) auto



lemma takeWhile_all_append:
  "list_all P xs \<Longrightarrow> ys = [] \<or> \<not> P (hd ys) \<Longrightarrow> takeWhile P (xs @ ys) = xs"
proof (induction xs)
  case Nil
  then show ?case by (cases ys) auto
next
  case (Cons x xs)
  then show ?case by simp
qed

lemma parseInt10_numToString_junk:
  assumes "junk = [] \<or> \<not> isDigit (hd junk)"
  shows "parseInt10 (numToString t @ junk) = Some t"
proof (cases "t < 0")
  case True
  have ws: "\<not> isWhiteSpace CHR ''-''" by (simp add: isWhiteSpace_def)
  from True show ?thesis
    by (simp add: parseInt10_def numToString_def ws Let_def
        takeWhile_all_append[OF decDigits_all_digits assms] decDigits_nonempty
        digitsValue_decDigits)
next
  case False
  obtain c cs where cs: "decDigits (nat t) = c # cs"
    using decDigits_nonempty[of "nat t"] by (cases "decDigits (nat t)") auto
  have c: "isDigit c" using hd_decDigits_digit[of "nat t"] cs by simp
  have tw: "takeWhile isDigit (c # cs @ junk) = c # cs"
    using takeWhile_all_append[OF decDigits_all_digits[of "nat t"] assms] cs by simp
  have dv: "digitsValue (c # cs) = nat t"
    using digitsValue_decDigits[of "nat t"] cs by simp
  from False isDigit_not_special[OF c] show ?thesis
    by (simp add: parseInt10_def numToString_def Let_def cs tw dv del: takeWhile.simps)
qed

lemma comma_notin_decDigits: "CHR '','' \<notin> set (decDigits n)"
proof
  assume "CHR '','' \<in> set (decDigits n)"
  with decDigits_all_digits[of n] have "isDigit CHR '',''"
    by (simp add: list_all_iff)
  then show False by (simp add: isDigit_def)
qed

lemma comma_notin_numToString: "CHR '','' \<notin> set (numToString t)"
  by (simp add: numToString_def comma_notin_decDigits)

lemma numToString_nonempty: "numToString t \<noteq> []"
  by (simp add: numToString_def decDigits_nonempty)

lemma hexDigit_not_comma: "n < 16 \<Longrightarrow> hexDigit n \<noteq> CHR '',''"
proof
  assume n: "n < 16" and "hexDigit n = CHR '',''"
  then have "(of_char (hexDigit n) :: nat) = of_char CHR '',''" by simp
  with n show False by (simp add: hexDigit_def split: if_splits)
qed

lemma comma_notin_hexByte: "CHR '','' \<notin> set (hexByte b)"
proof -
  have "unat b mod 16 < 16" by simp
  then show ?thesis
    using hexDigit_not_comma[OF byte_hi[of b]] hexDigit_not_comma[of "unat b mod 16"]
    by (auto simp: hexByte_def)
qed

lemma comma_notin_hexEncode: "CHR '','' \<notin> set (hexEncode bs)"
  by (induction bs) (simp_all add: hexEncode_def comma_notin_hexByte)

lemma comma_notin_hmacHex: "CHR '','' \<notin> set (hmacHex hmac k m)"
  by (simp add: hmacHex_def comma_notin_hexEncode)

lemma bufferFromHex_hmacHex_junk:
  "bufferFromHex junk = [] \<Longrightarrow> bufferFromHex (hmacHex hmac k m @ junk) = digestBytes (hmac k m)"
  by (simp add: hmacHex_def bufferFromHex_hexEncode_append)

text \<open>A header built around the digest of \<open>t\<close>, with optional junk after the
  timestamp digits and after the hex digest.\<close>

lemma verify_signed_header:
  assumes pl: "pl \<noteq> []" and sec: "sec \<noteq> []"
    and tj: "tjunk = [] \<or> \<not> isDigit (hd tjunk)" and tjc: "CHR '','' \<notin> set tjunk"
    and hj: "bufferFromHex hjunk = []" and hjc: "CHR '','' \<notin> set hjunk"
  shows "verifyWebhookSignature hmac date_now
           \<lparr>payload = pl,
            signature = ''t='' @ numToString t @ tjunk @ '',v1=''
                        @ hmacHex hmac sec (numToString t @ tjunk @ ''.'' @ pl) @ hjunk,
            secret = sec, tolerance = tolo\<rparr>
         = Inr (\<bar>date_now div 1000 - t\<bar> \<le> (case tolo of None \<Rightarrow> 300 | Some x \<Rightarrow> x))"
proof -
  define ts where "ts = numToString t @ tjunk"
  define hm where "hm = hmacHex hmac sec (ts @ ''.'' @ pl)"
  define tp where "tp = ''t='' @ ts"
  define sp where "sp = ''v1='' @ hm @ hjunk"
  define sig where "sig = tp @ CHR '','' # sp"
  have sig: "''t='' @ numToString t @ tjunk @ '',v1=''
               @ hmacHex hmac sec (numToString t @ tjunk @ ''.'' @ pl) @ hjunk = sig"
    by (simp add: sig_def tp_def sp_def hm_def ts_def)
  have c1: "CHR '','' \<notin> set tp"
    using tjc comma_notin_numToString[of t] by (simp add: tp_def ts_def)
  have c2: "CHR '','' \<notin> set sp"
    using hjc comma_notin_hmacHex[of hmac sec] by (simp add: sp_def hm_def)
  have parts: "split_on CHR '','' sig = [tp, sp]"
    unfolding sig_def using split_on_first[OF c1, of sp] split_on_no_sep[OF c2] by simp
  have f1: "find (\<lambda>p. startsWith p ''t='') [tp, sp] = Some tp"
    by (simp add: startsWith_def tp_def)
  have f2: "find (\<lambda>p. startsWith p ''v1='') [tp, sp] = Some sp"
    by (simp add: startsWith_def tp_def sp_def)
  have d1: "drop 2 tp = ts" by (simp add: tp_def)
  have d2: "drop 3 sp = hm @ hjunk" by (simp add: sp_def)
  have sig_ne: "sig \<noteq> []" by (simp add: sig_def)
  have ts_ne: "ts \<noteq> []" using numToString_nonempty[of t] by (simp add: ts_def)
  have hm_ne: "hm @ hjunk \<noteq> []" using hmacHex_nonempty[of hmac sec] by (simp add: hm_def)
  have pi: "parseInt10 ts = Some t"
    unfolding ts_def by (rule parseInt10_numToString_junk[OF tj])
  have a: "bufferFromHex (hmacHex hmac sec (ts @ CHR ''.'' # pl))
             = digestBytes (hmac sec (ts @ CHR ''.'' # pl))"
    using bufferFromHex_hmacHex_junk[of "[]" hmac sec] by simp
  have b: "bufferFromHex (hm @ hjunk) = digestBytes (hmac sec (ts @ CHR ''.'' # pl))"
    using bufferFromHex_hmacHex_junk[OF hj, of hmac sec] by (simp add: hm_def)
  have "verifyWebhookSignature hmac date_now
           \<lparr>payload = pl, signature = sig, secret = sec, tolerance = tolo\<rparr>
         = Inr (\<bar>date_now div 1000 - t\<bar> \<le> (case tolo of None \<Rightarrow> 300 | Some x \<Rightarrow> x))"
    unfolding verifyWebhookSignature_def
    using pl sec sig_ne ts_ne hm_ne
    by (simp add: parts f1 f2 d1 d2 pi a b timingSafeEqual_def Let_def
        del: find.simps split: option.splits)
  then show ?thesis by (simp only: sig)
qed

lemma verify_constructed:
  assumes "pl \<noteq> []" and "sec \<noteq> []"
  shows "verifyWebhookSignature hmac date_now
           \<lparr>payload = pl, signature = constructWebhookSignature hmac pl sec t,
            secret = sec, tolerance = tolo\<rparr>
         = Inr (\<bar>date_now div 1000 - t\<bar> \<le> (case tolo of None \<Rightarrow> 300 | Some x \<Rightarrow> x))"
  using verify_signed_header[OF assms, of "[]" "[]" hmac date_now t tolo]
  by (simp add: constructWebhookSignature_def Let_def)

lemma numToString_1700000000: "numToString 1700000000 = ''1700000000''"
  by (simp add: numToString_def decDigits.simps digitChar_def char_of_eq_iff)

lemma unhex_z: "unhex CHR ''z'' = None"
  by (simp add: unhex_def)

lemma bufferFromHex_zz: "bufferFromHex ''zz'' = []"
  by (simp add: unhex_def)


section \<open>The webhook verifiers\<close>

lemma sub64_exact: "- (2 ^ 63) \<le> a - b \<Longrightarrow> a - b < 2 ^ 63 \<Longrightarrow> sub64 a b = a - b"
proof -
  assume lo: "- (2 ^ 63) \<le> a - b" and hi: "a - b < 2 ^ 63"
  have "sub64 a b = sint (word_of_int (a - b) :: 64 word)"
    by (simp only: sub64_def wi_hom_sub)
  also have "\<dots> = signed_take_bit 63 (a - b)"
    by (simp only: signed_of_int) simp
  also have "\<dots> = a - b"
    using lo hi by (simp add: signed_take_bit_int_eq_self)
  finally show ?thesis .
qed

lemma strconv_ParseInt_numToString:
  assumes "- (2 ^ 63) \<le> t" and "t \<le> 2 ^ 63 - 1"
  shows "strconv_ParseInt (numToString t) = Some t"
proof (cases "t < 0")
  case True
  with assms show ?thesis
    by (simp add: strconv_ParseInt_def numToString_def Let_def decDigits_nonempty
        decDigits_all_digits digitsValue_decDigits)
next
  case False
  obtain c cs where cs: "decDigits (nat t) = c # cs"
    using decDigits_nonempty[of "nat t"] by (cases "decDigits (nat t)") auto
  have c: "isDigit c" using hd_decDigits_digit[of "nat t"] cs by simp
  have all: "list_all isDigit (c # cs)"
    using decDigits_all_digits[of "nat t"] cs by simp
  have dv: "digitsValue (c # cs) = nat t"
    using digitsValue_decDigits[of "nat t"] cs by simp
  from False assms isDigit_not_special[OF c] all show ?thesis
    by (simp add: strconv_ParseInt_def numToString_def Let_def cs dv)
qed

lemma hex_DecodeString_hexByte:
  "hex_DecodeString (hexByte b @ rest) = map_option ((#) b) (hex_DecodeString rest)"
  by (simp add: hexByte_def unhex_hexDigit byte_hi)

lemma hex_DecodeString_hexEncode_append:
  "hex_DecodeString (hexEncode bs @ rest) = map_option ((@) bs) (hex_DecodeString rest)"
proof (induction bs)
  case Nil
  show ?case by (simp add: hexEncode_def option.map_ident)
next
  case (Cons b bs)
  have "hexEncode (b # bs) @ rest = hexByte b @ (hexEncode bs @ rest)"
    by (simp add: hexEncode_def)
  then show ?case
    using Cons by (simp add: hex_DecodeString_hexByte option.map_comp comp_def)
qed

lemma hex_DecodeString_hexEncode: "hex_DecodeString (hexEncode bs) = Some bs"
  using hex_DecodeString_hexEncode_append[of bs "[]"] by simp

lemma hex_DecodeString_hmacHex: "hex_DecodeString (hmacHex hmac k m) = Some (digestBytes (hmac k m))"
  by (simp add: hmacHex_def hex_DecodeString_hexEncode)

lemma hex_DecodeString_hmacHex_zz: "hex_DecodeString (hmacHex hmac k m @ ''zz'') = None"
  by (simp add: hmacHex_def hex_DecodeString_hexEncode_append unhex_def)

text \<open>The parse loop of the Go verifier on a header of the constructor's shape.\<close>

lemma go_verify_signed_header:
  assumes pl: "pl \<noteq> []" and sec: "sec \<noteq> []"
    and lo: "- (2 ^ 63) \<le> t" and hi: "t \<le> 2 ^ 63 - 1"
    and hjc: "CHR '','' \<notin> set hjunk"
  shows "VerifyWebhookSignature hmac time_now pl
           (''t='' @ numToString t @ '',v1='' @ hmacHex hmac sec (numToString t @ ''.'' @ pl) @ hjunk)
           sec tol
         = (\<not> (tol > 0 \<and> real_of_int \<bar>sub64 time_now t\<bar> > real_of_int tol / 10 ^ 9)
            \<and> hex_DecodeString (hmacHex hmac sec (numToString t @ ''.'' @ pl) @ hjunk)
                = Some (digestBytes (hmac sec (numToString t @ ''.'' @ pl))))"
proof -
  define ts where "ts = numToString t"
  define hm where "hm = hmacHex hmac sec (ts @ ''.'' @ pl)"
  define tp where "tp = ''t='' @ ts"
  define sp where "sp = ''v1='' @ hm @ hjunk"
  define sig where "sig = tp @ CHR '','' # sp"
  have sig: "''t='' @ numToString t @ '',v1=''
               @ hmacHex hmac sec (numToString t @ ''.'' @ pl) @ hjunk = sig"
    by (simp add: sig_def tp_def sp_def hm_def ts_def)
  have c1: "CHR '','' \<notin> set tp"
    using comma_notin_numToString[of t] by (simp add: tp_def ts_def)
  have c2: "CHR '','' \<notin> set sp"
    using hjc comma_notin_hmacHex[of hmac sec] by (simp add: sp_def hm_def)
  have parts: "split_on CHR '','' sig = [tp, sp]"
    unfolding sig_def using split_on_first[OF c1, of sp] split_on_no_sep[OF c2] by simp
  have s1: "startsWith tp ''t=''" by (simp add: startsWith_def tp_def)
  have s2: "\<not> startsWith sp ''t=''" by (simp add: startsWith_def sp_def)
  have s3: "startsWith sp ''v1=''" by (simp add: startsWith_def sp_def)
  have d1: "drop 2 tp = ts" by (simp add: tp_def)
  have d2: "drop 3 sp = hm @ hjunk" by (simp add: sp_def)
  have sig_ne: "sig \<noteq> []" by (simp add: sig_def)
  have ts_ne: "ts \<noteq> []" using numToString_nonempty[of t] by (simp add: ts_def)
  have hm_ne: "hm @ hjunk \<noteq> []" using hmacHex_nonempty[of hmac sec] by (simp add: hm_def)
  have pi: "strconv_ParseInt ts = Some t"
    unfolding ts_def by (rule strconv_ParseInt_numToString[OF lo hi])
  have a: "hex_DecodeString (hmacHex hmac sec (ts @ CHR ''.'' # pl))
             = Some (digestBytes (hmac sec (ts @ CHR ''.'' # pl)))"
    by (rule hex_DecodeString_hmacHex)
  have "VerifyWebhookSignature hmac time_now pl sig sec tol
         = (\<not> (tol > 0 \<and> real_of_int \<bar>sub64 time_now t\<bar> > real_of_int tol / 10 ^ 9)
            \<and> hex_DecodeString (hm @ hjunk) = Some (digestBytes (hmac sec (ts @ ''.'' @ pl))))"
    unfolding VerifyWebhookSignature_def
    using pl sec sig_ne ts_ne hm_ne
    by (auto simp: parts s1 s2 s3 d1 d2 pi a Let_def split: option.splits)
  then show ?thesis by (simp only: sig hm_def ts_def)
qed

lemma go_verify_constructed:
  assumes "pl \<noteq> []" and "sec \<noteq> []" and "- (2 ^ 63) \<le> t" and "t \<le> 2 ^ 63 - 1" and "t \<noteq> 0"
  shows "VerifyWebhookSignature hmac time_now pl
           (ConstructWebhookSignature hmac clock pl sec t) sec tol
         = (\<not> (tol > 0 \<and> real_of_int \<bar>sub64 time_now t\<bar> > real_of_int tol / 10 ^ 9))"
  using go_verify_signed_header[OF assms(1-4), of "[]" hmac time_now tol] assms(5)
  by (simp add: ConstructWebhookSignature_def Let_def hex_DecodeString_hmacHex)

lemma go_tolerance_zero_ignores_clock:
  "VerifyWebhookSignature hmac now1 pl sig sec 0 = VerifyWebhookSignature hmac now2 pl sig sec 0"
  by (simp add: VerifyWebhookSignature_def split: prod.splits option.splits)

lemma go_rejects_junk_after_digest:
  "\<not> VerifyWebhookSignature hmac 1700000000 ''evt_1''
       (ConstructWebhookSignature hmac 0 ''evt_1'' ''whsec_test'' 1700000000 @ ''zz'')
       ''whsec_test'' (300 * 10 ^ 9)"
  using go_verify_signed_header[of "''evt_1''" "''whsec_test''" 1700000000 "''zz''" hmac
      1700000000 "300 * 10 ^ 9"]
  by (simp add: ConstructWebhookSignature_def Let_def hex_DecodeString_hmacHex_zz)

text \<open>What does hold of the TypeScript verifier: it never throws, and it returns
  \<open>true\<close> only when every check has passed.\<close>

lemma verify_never_throws: "\<exists>b. verifyWebhookSignature hmac date_now params = Inr b"
  by (auto simp: verifyWebhookSignature_def Let_def timingSafeEqual_def
      split: option.splits)

lemma verify_rejects_empty:
  "payload params = [] \<or> signature params = [] \<or> secret params = [] \<Longrightarrow>
     verifyWebhookSignature hmac date_now params = Inr False"
  by (auto simp: verifyWebhookSignature_def)

lemma verify_rejects_missing_segment:
  "find (\<lambda>p. startsWith p ''t='') (split_on CHR '','' (signature params)) = None
   \<or> find (\<lambda>p. startsWith p ''v1='') (split_on CHR '','' (signature params)) = None \<Longrightarrow>
     verifyWebhookSignature hmac date_now params = Inr False"
  by (auto simp: verifyWebhookSignature_def Let_def split: option.splits)

lemma verify_true_only_if:
  assumes "verifyWebhookSignature hmac date_now params = Inr True"
  shows "payload params \<noteq> [] \<and> signature params \<noteq> [] \<and> secret params \<noteq> []
       \<and> (\<exists>tp sp n.
             find (\<lambda>p. startsWith p ''t='') (split_on CHR '','' (signature params)) = Some tp
           \<and> find (\<lambda>p. startsWith p ''v1='') (split_on CHR '','' (signature params)) = Some sp
           \<and> parseInt10 (drop 2 tp) = Some n
           \<and> \<bar>date_now div 1000 - n\<bar> \<le> (case tolerance params of None \<Rightarrow> 300 | Some x \<Rightarrow> x)
           \<and> bufferFromHex (drop 3 sp)
               = digestBytes (hmac (secret params) (drop 2 tp @ ''.'' @ payload params)))"
  using assms
  by (auto simp: verifyWebhookSignature_def Let_def timingSafeEqual_def hmacHex_def
      bufferFromHex_hexEncode split: option.splits if_splits)

text \<open>
  C10.  In the TypeScript verifier, leaving \<open>tolerance\<close> out is the same as passing
  300 seconds, for every payload, header, secret and clock value; and it is not the
  same as passing 0: a header signed 100 seconds before the clock is accepted with the
  tolerance left out and rejected with tolerance 0.
\<close>

theorem tolerance_default_300:
  "verifyWebhookSignature hmac date_now (p\<lparr>tolerance := None\<rparr>)
     = verifyWebhookSignature hmac date_now (p\<lparr>tolerance := Some 300\<rparr>)
   \<and> verifyWebhookSignature hmac 1700000100000
         \<lparr>payload = ''evt_1'',
          signature = constructWebhookSignature hmac ''evt_1'' ''whsec_test'' 1700000000,
          secret = ''whsec_test'', tolerance = None\<rparr> = Inr True
   \<and> verifyWebhookSignature hmac 1700000100000
         \<lparr>payload = ''evt_1'',
          signature = constructWebhookSignature hmac ''evt_1'' ''whsec_test'' 1700000000,
          secret = ''whsec_test'', tolerance = Some 0\<rparr> = Inr False"
proof -
  have "verifyWebhookSignature hmac date_now (p\<lparr>tolerance := None\<rparr>)
     = verifyWebhookSignature hmac date_now (p\<lparr>tolerance := Some 300\<rparr>)"
    by (simp add: verifyWebhookSignature_def Let_def split: option.splits)
  then show ?thesis
    by (simp add: verify_constructed)
qed

text \<open>
  C1.  With \<open>tolerance = 0\<close> the TypeScript verifier still compares the age of the
  header with the tolerance: the same payload, header and secret are accepted when the
  clock equals the header's timestamp and rejected one second later, so the result
  depends on the difference between the current time and the timestamp.
\<close>

theorem ts_tolerance_zero_checks_freshness:
  "verifyWebhookSignature hmac 1700000000000
     \<lparr>payload = ''evt_1'',
      signature = constructWebhookSignature hmac ''evt_1'' ''whsec_test'' 1700000000,
      secret = ''whsec_test'', tolerance = Some 0\<rparr> = Inr True
   \<and> verifyWebhookSignature hmac 1700000001000
     \<lparr>payload = ''evt_1'',
      signature = constructWebhookSignature hmac ''evt_1'' ''whsec_test'' 1700000000,
      secret = ''whsec_test'', tolerance = Some 0\<rparr> = Inr False"
  by (simp add: verify_constructed)

text \<open>
  C8.  The TypeScript verifier accepts a header whose digest is followed by characters
  that are not hexadecimal, and a header whose timestamp is an integer followed by
  letters (signed as written): neither malformed header is rejected.
\<close>

theorem ts_lenient_header_accepted:
  "verifyWebhookSignature hmac 1700000000000
     \<lparr>payload = ''evt_1'',
      signature = constructWebhookSignature hmac ''evt_1'' ''whsec_test'' 1700000000 @ ''zz'',
      secret = ''whsec_test'', tolerance = Some 300\<rparr> = Inr True
   \<and> verifyWebhookSignature hmac 1700000000000
     \<lparr>payload = ''evt_1'',
      signature = ''t=1700000000abc,v1='' @ hmacHex hmac ''whsec_test'' ''1700000000abc.evt_1'',
      secret = ''whsec_test'', tolerance = Some 300\<rparr> = Inr True"
proof -
  have 1: "verifyWebhookSignature hmac 1700000000000
     \<lparr>payload = ''evt_1'',
      signature = constructWebhookSignature hmac ''evt_1'' ''whsec_test'' 1700000000 @ ''zz'',
      secret = ''whsec_test'', tolerance = Some 300\<rparr> = Inr True"
    using verify_signed_header[of "''evt_1''" "''whsec_test''" "[]" "''zz''" hmac 1700000000000
        1700000000 "Some 300"]
    by (simp add: constructWebhookSignature_def Let_def unhex_def)
  have 2: "verifyWebhookSignature hmac 1700000000000
     \<lparr>payload = ''evt_1'',
      signature = ''t=1700000000abc,v1='' @ hmacHex hmac ''whsec_test'' ''1700000000abc.evt_1'',
      secret = ''whsec_test'', tolerance = Some 300\<rparr> = Inr True"
    using verify_signed_header[of "''evt_1''" "''whsec_test''" "''abc''" "[]" hmac 1700000000000
        1700000000 "Some 300"]
    by (simp add: numToString_1700000000 isDigit_def)
  from 1 2 show ?thesis by (rule conjI)
qed

text \<open>
  C2.  Round trip: for a non-empty payload, a non-empty secret and a timestamp \<open>t\<close>,
  the header built by the constructor verifies with tolerance 300 when the clock is
  within 300 seconds of \<open>t\<close>, and is rejected when the clock is 301 seconds away.
  The same holds of the Go pair for a timestamp that is given (not 0, which stands for
  the current time) and fits \<^verbatim>\<open>int64\<close>.
\<close>

theorem webhook_round_trip:
  assumes "pl \<noteq> []" and "sec \<noteq> []"
  shows "(\<bar>date_now div 1000 - t\<bar> \<le> 300 \<longrightarrow>
            verifyWebhookSignature hmac date_now
              \<lparr>payload = pl, signature = constructWebhookSignature hmac pl sec t,
               secret = sec, tolerance = Some 300\<rparr> = Inr True)
       \<and> (\<bar>date_now div 1000 - t\<bar> = 301 \<longrightarrow>
            verifyWebhookSignature hmac date_now
              \<lparr>payload = pl, signature = constructWebhookSignature hmac pl sec t,
               secret = sec, tolerance = Some 300\<rparr> = Inr False)
       \<and> (t \<noteq> 0 \<and> - (2 ^ 63) \<le> t \<and> t \<le> 2 ^ 63 - 1 \<and> \<bar>time_now - t\<bar> \<le> 300 \<longrightarrow>
            VerifyWebhookSignature hmac time_now pl
              (ConstructWebhookSignature hmac clock pl sec t) sec (300 * 10 ^ 9))
       \<and> (t \<noteq> 0 \<and> - (2 ^ 63) \<le> t \<and> t \<le> 2 ^ 63 - 1 \<and> \<bar>time_now - t\<bar> = 301 \<longrightarrow>
            \<not> VerifyWebhookSignature hmac time_now pl
                (ConstructWebhookSignature hmac clock pl sec t) sec (300 * 10 ^ 9))"
proof -
  have ts: "verifyWebhookSignature hmac date_now
              \<lparr>payload = pl, signature = constructWebhookSignature hmac pl sec t,
               secret = sec, tolerance = Some 300\<rparr> = Inr (\<bar>date_now div 1000 - t\<bar> \<le> 300)"
    using verify_constructed[OF assms, of hmac date_now t "Some 300"] by simp
  have go: "VerifyWebhookSignature hmac time_now pl
              (ConstructWebhookSignature hmac clock pl sec t) sec (300 * 10 ^ 9)
            = (\<bar>time_now - t\<bar> \<le> 300)"
    if t: "t \<noteq> 0" "- (2 ^ 63) \<le> t" "t \<le> 2 ^ 63 - 1" and near: "\<bar>time_now - t\<bar> \<le> 301"
  proof -
    have "sub64 time_now t = time_now - t"
      using near by (intro sub64_exact) auto
    then show ?thesis
      using go_verify_constructed[OF assms t(2,3,1), of hmac time_now clock "300 * 10 ^ 9"]
      by auto
  qed
  show ?thesis
    using ts go by auto
qed

text \<open>
  C2, witness: the secret \<open>whsec_test\<close>, the payload \<open>evt_1\<close> and \<open>t = 1700000000\<close>,
  verified 100 and 301 seconds later, for every keyed hash.
\<close>

theorem webhook_round_trip_witness:
  "\<forall>hmac.
     ''evt_1'' \<noteq> [] \<and> ''whsec_test'' \<noteq> []
     \<and> \<bar>1700000100000 div 1000 - 1700000000\<bar> \<le> (300 :: int)
     \<and> verifyWebhookSignature hmac 1700000100000
          \<lparr>payload = ''evt_1'',
           signature = constructWebhookSignature hmac ''evt_1'' ''whsec_test'' 1700000000,
           secret = ''whsec_test'', tolerance = Some 300\<rparr> = Inr True
     \<and> \<bar>1700000301000 div 1000 - 1700000000\<bar> = (301 :: int)
     \<and> verifyWebhookSignature hmac 1700000301000
          \<lparr>payload = ''evt_1'',
           signature = constructWebhookSignature hmac ''evt_1'' ''whsec_test'' 1700000000,
           secret = ''whsec_test'', tolerance = Some 300\<rparr> = Inr False
     \<and> VerifyWebhookSignature hmac 1700000100 ''evt_1''
          (ConstructWebhookSignature hmac 1700000000 ''evt_1'' ''whsec_test'' 1700000000)
          ''whsec_test'' (300 * 10 ^ 9)
     \<and> \<not> VerifyWebhookSignature hmac 1700000301 ''evt_1''
          (ConstructWebhookSignature hmac 1700000000 ''evt_1'' ''whsec_test'' 1700000000)
          ''whsec_test'' (300 * 10 ^ 9)"
proof
  fix hmac :: hmac_fn
  note a = webhook_round_trip[where pl = "''evt_1''" and sec = "''whsec_test''" and hmac = hmac
      and t = 1700000000 and date_now = 1700000100000 and time_now = 1700000100
      and clock = 1700000000]
  note b = webhook_round_trip[where pl = "''evt_1''" and sec = "''whsec_test''" and hmac = hmac
      and t = 1700000000 and date_now = 1700000301000 and time_now = 1700000301
      and clock = 1700000000]
  show "''evt_1'' \<noteq> [] \<and> ''whsec_test'' \<noteq> []
     \<and> \<bar>1700000100000 div 1000 - 1700000000\<bar> \<le> (300 :: int)
     \<and> verifyWebhookSignature hmac 1700000100000
          \<lparr>payload = ''evt_1'',
           signature = constructWebhookSignature hmac ''evt_1'' ''whsec_test'' 1700000000,
           secret = ''whsec_test'', tolerance = Some 300\<rparr> = Inr True
     \<and> \<bar>1700000301000 div 1000 - 1700000000\<bar> = (301 :: int)
     \<and> verifyWebhookSignature hmac 1700000301000
          \<lparr>payload = ''evt_1'',
           signature = constructWebhookSignature hmac ''evt_1'' ''whsec_test'' 1700000000,
           secret = ''whsec_test'', tolerance = Some 300\<rparr> = Inr False
     \<and> VerifyWebhookSignature hmac 1700000100 ''evt_1''
          (ConstructWebhookSignature hmac 1700000000 ''evt_1'' ''whsec_test'' 1700000000)
          ''whsec_test'' (300 * 10 ^ 9)
     \<and> \<not> VerifyWebhookSignature hmac 1700000301 ''evt_1''
          (ConstructWebhookSignature hmac 1700000000 ''evt_1'' ''whsec_test'' 1700000000)
          ''whsec_test'' (300 * 10 ^ 9)"
    using a b by simp
qed


section \<open>The delay calculators\<close>

lemma calculateDelay_hint:
  "0 < h \<Longrightarrow> calculateDelay random attempt config (Some (Num h))
     = min (h * 1000) (case maxDelayMs config of None \<Rightarrow> 30000 | Some m \<Rightarrow> m)"
  by (simp add: calculateDelay_def serverHint_def Let_def)

lemma go_calculateDelay_hint:
  "0 < retryAfter \<Longrightarrow> go_calculateDelay rnd attempt config retryAfter
     = min retryAfter (MaxDelay config)"
  by (simp add: go_calculateDelay_def min_def)

text \<open>
  C5.  For every attempt index, configuration and jitter draw, a positive server hint
  \<open>h\<close> (seconds) makes the delay calculator return \<open>min (h \<times> 1000) maxDelay\<close>
  milliseconds, with no jitter: 2 s under a 30 s cap gives 2000, 40 s gives 30000.
  The Go calculator returns \<open>min retryAfter MaxDelay\<close>.
\<close>

theorem server_hint_verbatim:
  assumes "0 < h" and "0 < retryAfter"
  shows "calculateDelay random attempt config (Some (Num h))
           = min (h * 1000) (case maxDelayMs config of None \<Rightarrow> 30000 | Some m \<Rightarrow> m)
       \<and> calculateDelay random attempt (config\<lparr>maxDelayMs := Some 30000\<rparr>) (Some (Num 2)) = 2000
       \<and> calculateDelay random attempt (config\<lparr>maxDelayMs := Some 30000\<rparr>) (Some (Num 40)) = 30000
       \<and> go_calculateDelay rnd attempt gconfig retryAfter = min retryAfter (MaxDelay gconfig)"
  using assms by (simp add: calculateDelay_hint go_calculateDelay_hint)

text \<open>
  C5, witness: a hint of 2 s, and a Go hint of 40 s under a cap of 30 s.
\<close>

theorem server_hint_verbatim_witness:
  "(0 :: real) < 2 \<and> (0 :: int) < 40000000000
   \<and> calculateDelay (3 / 4) 5
        \<lparr>maxRetries = 3, backoff = BackoffExponential, baseDelayMs = None, maxDelayMs = None\<rparr>
        (Some (Num 2)) = 2000
   \<and> go_calculateDelay (3 / 4) 5
        \<lparr>MaxRetries = 3, Backoff = BackoffExponential, BaseDelay = 1000000000,
         MaxDelay = 30000000000\<rparr> 40000000000 = 30000000000"
  using server_hint_verbatim[where h = 2 and retryAfter = 40000000000 and random = "3 / 4"
      and attempt = 5 and rnd = "3 / 4"
      and config = "\<lparr>maxRetries = 3, backoff = BackoffExponential, baseDelayMs = None,
                      maxDelayMs = None\<rparr>"
      and gconfig = "\<lparr>MaxRetries = 3, Backoff = BackoffExponential, BaseDelay = 1000000000,
                       MaxDelay = 30000000000\<rparr>"]
  by simp

lemma mul64_overflow: "mul64 1000000000 17179869184 = - 1266874889709551616"
  by (simp add: mul64_def)

lemma mul64_33: "mul64 1000000000 8589934592 = 8589934592000000000"
  by (simp add: mul64_def)

lemma add64_overflow: "add64 8589934592000000000 2147483648000000000 = - 7709325833709551616"
  by (simp add: add64_def)

text \<open>
  C6.  Under the default delays (base delay 1 s, cap 30 s, exponential backoff) the Go delay calculator returns a negative delay at attempt 34: the product
  \<open>BaseDelay \<times> 2^34\<close> wraps around \<^verbatim>\<open>int64\<close> before the clamp is applied, so the result is
  neither in \<open>[D, 1.5 \<times> D)\<close> nor the cap.  At attempt 33 with a jitter draw of one half
  the sum of delay and jitter wraps.  At attempt 5 the delay of 32 s is clamped to 30 s.
\<close>

theorem go_backoff_overflows:
  "go_calculateDelay 0 34
     \<lparr>MaxRetries = 40, Backoff = BackoffExponential, BaseDelay = 1000000000,
      MaxDelay = 30000000000\<rparr> 0 = - 1266874889709551616
   \<and> go_calculateDelay (1 / 2) 33
     \<lparr>MaxRetries = 40, Backoff = BackoffExponential, BaseDelay = 1000000000,
      MaxDelay = 30000000000\<rparr> 0 = - 7709325833709551616
   \<and> go_calculateDelay 0 5
     \<lparr>MaxRetries = 40, Backoff = BackoffExponential, BaseDelay = 1000000000,
      MaxDelay = 30000000000\<rparr> 0 = 30000000000"
  by (simp add: go_calculateDelay_def int64_of_float_def Let_def mul64_overflow mul64_33
      add64_overflow add64_def mul64_def)

text \<open>The TypeScript calculator rounds after it clamps: under a cap of half a
  millisecond it returns one millisecond (every intermediate value here is a double,
  so the evaluation is that of the source).\<close>

lemma ts_rounds_after_clamp:
  "calculateDelay 0 0
     \<lparr>maxRetries = 3, backoff = BackoffExponential, baseDelayMs = None,
      maxDelayMs = Some (1 / 2)\<rparr> None = 1"
  by (simp add: calculateDelay_def serverHint_def postJitterDelay_def preJitterDelay_def
      mathRound_def Let_def)


section \<open>The retry executors\<close>

lemma calls_bound_from:
  "nat (maxRetries config + 1 - int attempt) = n \<Longrightarrow>
     length (calls (executeWithRetry_from fn random config attempt lastError)) \<le> n"
proof (induction n arbitrary: attempt lastError)
  case 0
  then show ?case
    by (subst executeWithRetry_from.simps) simp
next
  case (Suc n)
  then have le: "int attempt \<le> maxRetries config" by linarith
  have n: "nat (maxRetries config + 1 - int (Suc attempt)) = n"
    using Suc.prems by simp
  show ?case
    using le Suc.IH[OF n]
    by (subst executeWithRetry_from.simps)
       (auto simp: Let_def split: sum.splits option.splits)
qed

lemma calls_all_retryable_from:
  assumes all: "\<forall>i. int i \<le> maxRetries config \<longrightarrow> (\<exists>r. fn i = Inr r \<and> shouldRetry r)"
  shows "nat (maxRetries config + 1 - int attempt) = n \<Longrightarrow>
     calls (executeWithRetry_from fn random config attempt lastError) = [attempt..<attempt + n]"
proof (induction n arbitrary: attempt lastError)
  case 0
  then show ?case
    by (subst executeWithRetry_from.simps) simp
next
  case (Suc n)
  then have le: "int attempt \<le> maxRetries config" by linarith
  then obtain r where r: "fn attempt = Inr r" "shouldRetry r" using all by blast
  have n: "nat (maxRetries config + 1 - int (Suc attempt)) = n"
    using Suc.prems by simp
  show ?case
  proof (cases "int attempt = maxRetries config")
    case True
    then have "n = 0" using n by simp
    with True le r show ?thesis
      by (subst executeWithRetry_from.simps) (simp split: option.splits)
  next
    case False
    with le r Suc.IH[OF n] show ?thesis
      by (subst executeWithRetry_from.simps) (simp add: Let_def upt_rec)
  qed
qed

lemma calls_single_attempt:
  "maxRetries config = 0 \<Longrightarrow> calls (executeWithRetry fn random config) = [0]"
  unfolding executeWithRetry_def
  by (subst executeWithRetry_from.simps) (simp split: sum.splits option.splits)

lemma go_calls_bound_from:
  "nat (MaxRetries config + 1 - int attempt) = n \<Longrightarrow>
     length (go_calls (retryDo_from ctx rnd config fn attempt lastErr)) \<le> n"
proof (induction n arbitrary: attempt lastErr)
  case 0
  then show ?case
    by (subst retryDo_from.simps) simp
next
  case (Suc n)
  then have le: "int attempt \<le> MaxRetries config" by linarith
  have n: "nat (MaxRetries config + 1 - int (Suc attempt)) = n"
    using Suc.prems by simp
  show ?case
    using le Suc.IH[OF n]
    by (subst retryDo_from.simps)
       (auto simp: Let_def split: prod.splits option.splits)
qed

lemma go_calls_all_retryable_from:
  assumes all: "\<forall>i. int i \<le> MaxRetries config \<longrightarrow>
                  (\<exists>body st ra e. fn i = (body, st, ra, Some e)
                     \<and> (isRetryableStatusCode st \<or> st = 0))"
    and nocancel: "\<forall>i. \<not> ctxErr ctx i \<and> \<not> ctxDone ctx i"
  shows "nat (MaxRetries config + 1 - int attempt) = n \<Longrightarrow>
     go_calls (retryDo_from ctx rnd config fn attempt lastErr) = [attempt..<attempt + n]"
proof (induction n arbitrary: attempt lastErr)
  case 0
  then show ?case
    by (subst retryDo_from.simps) simp
next
  case (Suc n)
  then have le: "int attempt \<le> MaxRetries config" by linarith
  then obtain body st ra e where r: "fn attempt = (body, st, ra, Some e)"
    and st: "isRetryableStatusCode st \<or> st = 0" using all by blast
  have n: "nat (MaxRetries config + 1 - int (Suc attempt)) = n"
    using Suc.prems by simp
  show ?case
  proof (cases "int attempt = MaxRetries config")
    case True
    then have "n = 0" using n by simp
    with True le r show ?thesis
      by (subst retryDo_from.simps) simp
  next
    case False
    with le r st nocancel Suc.IH[OF n] show ?thesis
      by (subst retryDo_from.simps) (auto simp: Let_def upt_rec)
  qed
qed

lemma go_calls_single_attempt:
  "MaxRetries config = 0 \<Longrightarrow> go_calls (retryDo ctx rnd config fn) = [0]"
  unfolding retryDo_def
  by (subst retryDo_from.simps) (simp split: prod.splits option.splits)


lemma retryDo_from_past_end:
  "\<not> int a \<le> MaxRetries config \<Longrightarrow> go_calls (retryDo_from ctx rnd config fn a l) = []"
  by (subst retryDo_from.simps) simp

lemma retryDo_from_head:
  "int a \<le> MaxRetries config \<Longrightarrow> a \<in> set (go_calls (retryDo_from ctx rnd config fn a l))"
  by (subst retryDo_from.simps) (auto simp: Let_def split: prod.splits option.splits)

lemma retryDo_from_step:
  "int a \<le> MaxRetries config \<Longrightarrow>
     go_calls (retryDo_from ctx rnd config fn a l) = [a]
     \<or> (\<exists>e. go_calls (retryDo_from ctx rnd config fn a l)
               = a # go_calls (retryDo_from ctx rnd config fn (Suc a) (Some e))
             \<and> go_result (retryDo_from ctx rnd config fn a l)
               = go_result (retryDo_from ctx rnd config fn (Suc a) (Some e)))"
  by (auto simp: retryDo_from.simps[of ctx rnd config fn a l] Let_def
      split: prod.splits option.splits)

lemma retryDo_from_terminal:
  assumes "int a \<le> MaxRetries config" and "fn a = (body, st, ra, Some e)"
    and "(0 < st \<and> \<not> isRetryableStatusCode st) \<or> (st = 0 \<and> ctxErr ctx a)"
  shows "retryDo_from ctx rnd config fn a l
           = \<lparr>go_result = (None, Some (FnError e)), go_calls = [a], go_waits = []\<rparr>"
  using assms by (subst retryDo_from.simps) auto

lemma retryDo_from_proceed:
  assumes "int a < MaxRetries config" and "fn a = (body, st, ra, Some e)"
    and "isRetryableStatusCode st \<or> (st = 0 \<and> \<not> ctxErr ctx a)"
    and "\<not> ctxDone ctx a"
  shows "go_calls (retryDo_from ctx rnd config fn a l)
           = a # go_calls (retryDo_from ctx rnd config fn (Suc a) (Some e))"
  using assms by (subst retryDo_from.simps) (auto simp: Let_def isRetryableStatusCode_def)

text \<open>A run that reaches attempt \<open>i\<close> continues as the loop started at \<open>i\<close>.\<close>

lemma go_run_reaches:
  "nat (MaxRetries config + 1 - int a) = n \<Longrightarrow>
   i \<in> set (go_calls (retryDo_from ctx rnd config fn a l)) \<Longrightarrow>
     a \<le> i \<and> int i \<le> MaxRetries config
     \<and> (\<exists>l'. go_calls (retryDo_from ctx rnd config fn a l)
                 = [a..<i] @ go_calls (retryDo_from ctx rnd config fn i l')
             \<and> go_result (retryDo_from ctx rnd config fn a l)
                 = go_result (retryDo_from ctx rnd config fn i l'))"
proof (induction n arbitrary: a l)
  case 0
  then have "\<not> int a \<le> MaxRetries config" by linarith
  from retryDo_from_past_end[OF this, of ctx rnd fn l] "0.prems"(2) show ?case by simp
next
  case (Suc n)
  then have le: "int a \<le> MaxRetries config" by linarith
  have n: "nat (MaxRetries config + 1 - int (Suc a)) = n"
    using Suc.prems(1) by simp
  show ?case
  proof (cases "i = a")
    case True
    with le show ?thesis by auto
  next
    case False
    from retryDo_from_step[OF le, of ctx rnd fn l] False Suc.prems(2)
    obtain e where c: "go_calls (retryDo_from ctx rnd config fn a l)
               = a # go_calls (retryDo_from ctx rnd config fn (Suc a) (Some e))"
      and r: "go_result (retryDo_from ctx rnd config fn a l)
               = go_result (retryDo_from ctx rnd config fn (Suc a) (Some e))"
      by auto
    from c False Suc.prems(2)
    have mem: "i \<in> set (go_calls (retryDo_from ctx rnd config fn (Suc a) (Some e)))"
      by simp
    from Suc.IH[OF n mem] obtain l' where
      ai: "Suc a \<le> i" and im: "int i \<le> MaxRetries config"
      and c': "go_calls (retryDo_from ctx rnd config fn (Suc a) (Some e))
                 = [Suc a..<i] @ go_calls (retryDo_from ctx rnd config fn i l')"
      and r': "go_result (retryDo_from ctx rnd config fn (Suc a) (Some e))
                 = go_result (retryDo_from ctx rnd config fn i l')"
      by blast
    have "[a..<i] = a # [Suc a..<i]" using ai by (simp add: upt_rec)
    with ai im c c' r r' show ?thesis by auto
  qed
qed

lemma upt_snoc_no_Suc: "Suc i \<notin> set ([a..<i] @ [i])"
  by simp

text \<open>
  C3.  Retryability: a status is classified retryable exactly when it is 429 or in
  \<open>[500, 599]\<close>.  In a run of \<^verbatim>\<open>retryDo\<close>, after an attempt \<open>i\<close> that failed: with any
  other (positive) status no further attempt is made and the failure is returned; with
  no status (0) and the context already cancelled no further attempt is made and the
  failure is returned; with a retryable status, or with no status and the context not
  cancelled, attempt \<open>i + 1\<close> is made if attempts remain and the wait is not
  interrupted.
\<close>

theorem retry_classification:
  assumes i: "i \<in> set (go_calls (retryDo ctx rnd config fn))"
    and out: "fn i = (body, st, ra, Some e)"
  shows "(isRetryableStatusCode st \<longleftrightarrow> st = 429 \<or> (500 \<le> st \<and> st \<le> 599))
       \<and> (0 < st \<and> \<not> (st = 429 \<or> (500 \<le> st \<and> st \<le> 599)) \<longrightarrow>
            Suc i \<notin> set (go_calls (retryDo ctx rnd config fn))
            \<and> go_result (retryDo ctx rnd config fn) = (None, Some (FnError e)))
       \<and> (st = 0 \<and> ctxErr ctx i \<longrightarrow>
            Suc i \<notin> set (go_calls (retryDo ctx rnd config fn))
            \<and> go_result (retryDo ctx rnd config fn) = (None, Some (FnError e)))
       \<and> ((st = 429 \<or> (500 \<le> st \<and> st \<le> 599) \<or> (st = 0 \<and> \<not> ctxErr ctx i))
            \<and> int i < MaxRetries config \<and> \<not> ctxDone ctx i \<longrightarrow>
            Suc i \<in> set (go_calls (retryDo ctx rnd config fn)))"
proof -
  let ?F = "retryDo_from ctx rnd config fn"
  from go_run_reaches[OF refl i[unfolded retryDo_def]] obtain l' where
    im: "int i \<le> MaxRetries config"
    and c: "go_calls (?F 0 None) = [0..<i] @ go_calls (?F i l')"
    and r: "go_result (?F 0 None) = go_result (?F i l')"
    by blast
  have stop: "Suc i \<notin> set (go_calls (?F 0 None)) \<and> go_result (?F 0 None) = (None, Some (FnError e))"
    if "(0 < st \<and> \<not> isRetryableStatusCode st) \<or> (st = 0 \<and> ctxErr ctx i)"
    using retryDo_from_terminal[where fn = fn and a = i and ctx = ctx and rnd = rnd
        and l = l', OF im out that] c r by simp
  have go_on: "Suc i \<in> set (go_calls (?F 0 None))"
    if "isRetryableStatusCode st \<or> (st = 0 \<and> \<not> ctxErr ctx i)"
      and "int i < MaxRetries config" and "\<not> ctxDone ctx i"
  proof -
    have "int (Suc i) \<le> MaxRetries config" using that(2) by simp
    from retryDo_from_head[OF this, of ctx rnd fn "Some e"]
      retryDo_from_proceed[where fn = fn and a = i and ctx = ctx and rnd = rnd
        and l = l', OF that(2) out that(1,3)] c
    show ?thesis by simp
  qed
  show ?thesis
    using stop go_on by (auto simp: retryDo_def isRetryableStatusCode_def)
qed

text \<open>
  C3, witness: a first attempt that fails with 400, one that fails with no status
  under a cancelled context, and one that fails with 503.
\<close>

theorem retry_classification_witness:
  "0 \<in> set (go_calls (retryDo \<lparr>ctxErr = \<lambda>_. False, ctxDone = \<lambda>_. False\<rparr> (\<lambda>_. 0)
            \<lparr>MaxRetries = 3, Backoff = BackoffExponential, BaseDelay = 1000000000,
             MaxDelay = 30000000000\<rparr>
            (\<lambda>_. (''body'', 400, 0, Some ''bad request''))))
   \<and> Suc 0 \<notin> set (go_calls (retryDo \<lparr>ctxErr = \<lambda>_. False, ctxDone = \<lambda>_. False\<rparr> (\<lambda>_. 0)
            \<lparr>MaxRetries = 3, Backoff = BackoffExponential, BaseDelay = 1000000000,
             MaxDelay = 30000000000\<rparr>
            (\<lambda>_. (''body'', 400, 0, Some ''bad request''))))
   \<and> go_result (retryDo \<lparr>ctxErr = \<lambda>_. False, ctxDone = \<lambda>_. False\<rparr> (\<lambda>_. 0)
            \<lparr>MaxRetries = 3, Backoff = BackoffExponential, BaseDelay = 1000000000,
             MaxDelay = 30000000000\<rparr>
            (\<lambda>_. (''body'', 400, 0, Some ''bad request'')))
       = (None, Some (FnError ''bad request''))
   \<and> 0 \<in> set (go_calls (retryDo \<lparr>ctxErr = \<lambda>_. True, ctxDone = \<lambda>_. False\<rparr> (\<lambda>_. 0)
            \<lparr>MaxRetries = 3, Backoff = BackoffExponential, BaseDelay = 1000000000,
             MaxDelay = 30000000000\<rparr>
            (\<lambda>_. (''body'', 0, 0, Some ''connection reset''))))
   \<and> Suc 0 \<notin> set (go_calls (retryDo \<lparr>ctxErr = \<lambda>_. True, ctxDone = \<lambda>_. False\<rparr> (\<lambda>_. 0)
            \<lparr>MaxRetries = 3, Backoff = BackoffExponential, BaseDelay = 1000000000,
             MaxDelay = 30000000000\<rparr>
            (\<lambda>_. (''body'', 0, 0, Some ''connection reset''))))
   \<and> 0 \<in> set (go_calls (retryDo \<lparr>ctxErr = \<lambda>_. False, ctxDone = \<lambda>_. False\<rparr> (\<lambda>_. 0)
            \<lparr>MaxRetries = 3, Backoff = BackoffExponential, BaseDelay = 1000000000,
             MaxDelay = 30000000000\<rparr>
            (\<lambda>_. (''body'', 503, 0, Some ''unavailable''))))
   \<and> Suc 0 \<in> set (go_calls (retryDo \<lparr>ctxErr = \<lambda>_. False, ctxDone = \<lambda>_. False\<rparr> (\<lambda>_. 0)
            \<lparr>MaxRetries = 3, Backoff = BackoffExponential, BaseDelay = 1000000000,
             MaxDelay = 30000000000\<rparr>
            (\<lambda>_. (''body'', 503, 0, Some ''unavailable''))))"
proof -
  let ?cfg = "\<lparr>MaxRetries = 3, Backoff = BackoffExponential, BaseDelay = 1000000000,
             MaxDelay = 30000000000\<rparr>"
  have h: "\<And>ctx fn. 0 \<in> set (go_calls (retryDo ctx (\<lambda>_. 0) ?cfg
              (fn :: nat \<Rightarrow> string \<times> int \<times> int \<times> string option)))"
    unfolding retryDo_def by (rule retryDo_from_head) simp
  note a = retry_classification[where i = 0 and ctx = "\<lparr>ctxErr = \<lambda>_. False, ctxDone = \<lambda>_. False\<rparr>"
      and rnd = "\<lambda>_. 0" and config = ?cfg and fn = "\<lambda>_. (''body'', 400, 0, Some ''bad request'')"
      and body = "''body''" and st = 400 and ra = 0 and e = "''bad request''", OF h refl]
  note b = retry_classification[where i = 0 and ctx = "\<lparr>ctxErr = \<lambda>_. True, ctxDone = \<lambda>_. False\<rparr>"
      and rnd = "\<lambda>_. 0" and config = ?cfg and fn = "\<lambda>_. (''body'', 0, 0, Some ''connection reset'')"
      and body = "''body''" and st = 0 and ra = 0 and e = "''connection reset''", OF h refl]
  note c = retry_classification[where i = 0 and ctx = "\<lparr>ctxErr = \<lambda>_. False, ctxDone = \<lambda>_. False\<rparr>"
      and rnd = "\<lambda>_. 0" and config = ?cfg and fn = "\<lambda>_. (''body'', 503, 0, Some ''unavailable'')"
      and body = "''body''" and st = 503 and ra = 0 and e = "''unavailable''", OF h refl]
  show ?thesis
    using a b c h by simp
qed

text \<open>
  C4.  For \<open>maxRetries = N \<ge> 0\<close> the executor calls the operation at most \<open>N + 1\<close>
  times; when every attempt is a retryable failure it calls it exactly \<open>N + 1\<close> times,
  with the attempt numbers \<open>0, \<dots>, N\<close>; with \<open>maxRetries = 0\<close> it calls it exactly once
  whatever the outcome.  The same holds of \<^verbatim>\<open>retryDo\<close>, the exact count for a context
  that is not cancelled.
\<close>

theorem retry_attempt_count:
  assumes "0 \<le> maxRetries config" and "0 \<le> MaxRetries gconfig"
  shows "length (calls (executeWithRetry fn random config)) \<le> nat (maxRetries config) + 1
       \<and> ((\<forall>i. int i \<le> maxRetries config \<longrightarrow> (\<exists>r. fn i = Inr r \<and> shouldRetry r)) \<longrightarrow>
            calls (executeWithRetry fn random config) = [0..<nat (maxRetries config) + 1])
       \<and> (maxRetries config = 0 \<longrightarrow> calls (executeWithRetry fn random config) = [0])
       \<and> length (go_calls (retryDo ctx rnd gconfig gfn)) \<le> nat (MaxRetries gconfig) + 1
       \<and> ((\<forall>i. int i \<le> MaxRetries gconfig \<longrightarrow>
               (\<exists>body st ra e. gfn i = (body, st, ra, Some e)
                  \<and> (isRetryableStatusCode st \<or> st = 0)))
            \<and> (\<forall>i. \<not> ctxErr ctx i \<and> \<not> ctxDone ctx i) \<longrightarrow>
            go_calls (retryDo ctx rnd gconfig gfn) = [0..<nat (MaxRetries gconfig) + 1])
       \<and> (MaxRetries gconfig = 0 \<longrightarrow> go_calls (retryDo ctx rnd gconfig gfn) = [0])"
proof -
  have n: "nat (maxRetries config + 1 - int 0) = nat (maxRetries config) + 1"
    using assms(1) by simp
  have gn: "nat (MaxRetries gconfig + 1 - int 0) = nat (MaxRetries gconfig) + 1"
    using assms(2) by simp
  have 1: "length (calls (executeWithRetry fn random config)) \<le> nat (maxRetries config) + 1"
    unfolding executeWithRetry_def by (rule calls_bound_from[OF n])
  have 2: "calls (executeWithRetry fn random config) = [0..<nat (maxRetries config) + 1]"
    if "\<forall>i. int i \<le> maxRetries config \<longrightarrow> (\<exists>r. fn i = Inr r \<and> shouldRetry r)"
    unfolding executeWithRetry_def
    using calls_all_retryable_from[OF that n, of random None] by simp
  have 4: "length (go_calls (retryDo ctx rnd gconfig gfn)) \<le> nat (MaxRetries gconfig) + 1"
    unfolding retryDo_def by (rule go_calls_bound_from[OF gn])
  have 5: "go_calls (retryDo ctx rnd gconfig gfn) = [0..<nat (MaxRetries gconfig) + 1]"
    if "\<forall>i. int i \<le> MaxRetries gconfig \<longrightarrow>
               (\<exists>body st ra e. gfn i = (body, st, ra, Some e)
                  \<and> (isRetryableStatusCode st \<or> st = 0))"
      and "\<forall>i. \<not> ctxErr ctx i \<and> \<not> ctxDone ctx i"
    unfolding retryDo_def
    using go_calls_all_retryable_from[OF that gn, of rnd None] by simp
  show ?thesis
    using 1 2 4 5 calls_single_attempt[of config fn random]
      go_calls_single_attempt[of gconfig ctx rnd gfn]
    by blast
qed

text \<open>
  C4, witness: attempts that all fail with 503, under \<open>maxRetries\<close> 2 and 0.
\<close>

theorem retry_attempt_count_witness:
  "(0 :: int) \<le> 2
   \<and> calls (executeWithRetry
        (\<lambda>_. Inr \<lparr>response = None :: string option, statusCode = Some 503,
                   error = Some (newError ''unavailable''), retryAfterSeconds = None,
                   shouldRetry = True\<rparr>)
        (\<lambda>_. 1 / 2)
        \<lparr>maxRetries = 2, backoff = BackoffExponential, baseDelayMs = None, maxDelayMs = None\<rparr>)
       = [0, 1, 2]
   \<and> calls (executeWithRetry
        (\<lambda>_. Inr \<lparr>response = None :: string option, statusCode = Some 503,
                   error = Some (newError ''unavailable''), retryAfterSeconds = None,
                   shouldRetry = True\<rparr>)
        (\<lambda>_. 1 / 2)
        \<lparr>maxRetries = 0, backoff = BackoffExponential, baseDelayMs = None, maxDelayMs = None\<rparr>)
       = [0]
   \<and> go_calls (retryDo \<lparr>ctxErr = \<lambda>_. False, ctxDone = \<lambda>_. False\<rparr> (\<lambda>_. 1 / 2)
        \<lparr>MaxRetries = 2, Backoff = BackoffExponential, BaseDelay = 1000000000,
         MaxDelay = 30000000000\<rparr>
        (\<lambda>_. (''body'', 503, 0, Some ''unavailable'')))
       = [0, 1, 2]
   \<and> go_calls (retryDo \<lparr>ctxErr = \<lambda>_. False, ctxDone = \<lambda>_. False\<rparr> (\<lambda>_. 1 / 2)
        \<lparr>MaxRetries = 0, Backoff = BackoffExponential, BaseDelay = 1000000000,
         MaxDelay = 30000000000\<rparr>
        (\<lambda>_. (''body'', 503, 0, Some ''unavailable'')))
       = [0]"
proof -
  let ?fn = "\<lambda>_ :: nat. Inr \<lparr>response = None :: string option, statusCode = Some 503,
                   error = Some (newError ''unavailable''), retryAfterSeconds = None,
                   shouldRetry = True\<rparr> :: sdk_error + string AttemptResult"
  let ?gfn = "\<lambda>_ :: nat. (''body'', 503 :: int, 0 :: int, Some ''unavailable'')"
  let ?ctx = "\<lparr>ctxErr = \<lambda>_. False, ctxDone = \<lambda>_. False\<rparr>"
  note a = retry_attempt_count[where fn = ?fn and random = "\<lambda>_. 1 / 2" and gfn = ?gfn
      and ctx = ?ctx and rnd = "\<lambda>_. 1 / 2"
      and config = "\<lparr>maxRetries = 2, backoff = BackoffExponential, baseDelayMs = None,
                      maxDelayMs = None\<rparr>"
      and gconfig = "\<lparr>MaxRetries = 2, Backoff = BackoffExponential, BaseDelay = 1000000000,
                       MaxDelay = 30000000000\<rparr>"]
  note b = retry_attempt_count[where fn = ?fn and random = "\<lambda>_. 1 / 2" and gfn = ?gfn
      and ctx = ?ctx and rnd = "\<lambda>_. 1 / 2"
      and config = "\<lparr>maxRetries = 0, backoff = BackoffExponential, baseDelayMs = None,
                      maxDelayMs = None\<rparr>"
      and gconfig = "\<lparr>MaxRetries = 0, Backoff = BackoffExponential, BaseDelay = 1000000000,
                       MaxDelay = 30000000000\<rparr>"]
  have u: "[0..<3] = [0, 1, 2]" by (simp add: upt_rec)
  show ?thesis
    using a b by (simp add: isRetryableStatusCode_def u)
qed


section \<open>Waiting for completion\<close>

lemma wait_all_nonterminal_from:
  assumes all: "\<forall>k. \<exists>task. fetch env k = Inr task \<and> \<not> isTerminal (status task)"
  shows "waitOutcome (waitForCompletion_from env tid pollInterval timeout deadline k now)
           = Inl (newTimeoutError
                    (''Task '' @ tid @ '' did not reach a terminal state within ''
                     @ numToString timeout @ ''ms'') timeout)"
proof (induction "nat (deadline - now)" arbitrary: k now rule: less_induct)
  case less
  obtain task where task: "fetch env k = Inr task" "\<not> isTerminal (status task)"
    using all by blast
  show ?case
  proof (cases "now < deadline")
    case False
    then show ?thesis
      by (subst waitForCompletion_from.simps) simp
  next
    case True
    let ?now1 = "now + int (fetchMs env k)"
    show ?thesis
    proof (cases "deadline - ?now1 \<le> 0")
      case True
      with \<open>now < deadline\<close> task show ?thesis
        by (subst waitForCompletion_from.simps) (simp add: Let_def)
    next
      case False
      let ?d = "min pollInterval (deadline - ?now1)"
      let ?now2 = "?now1 + setTimeoutMs ?d + int (oversleepMs env k)"
      have "1 \<le> setTimeoutMs ?d" by (simp add: setTimeoutMs_def)
      then have "nat (deadline - ?now2) < nat (deadline - now)"
        using \<open>now < deadline\<close> by linarith
      from less[OF this, of "Suc k"] False \<open>now < deadline\<close> task show ?thesis
        by (subst waitForCompletion_from.simps) (simp add: Let_def)
    qed
  qed
qed

text \<open>
  C7 (amended).  When every status fetched is non-terminal the wait ends, and it throws
  a \<^verbatim>\<open>TimeoutError\<close> whose fields are its name, a message naming the task and the
  configured timeout, and \<open>timeoutMs\<close>, the configured timeout: it carries neither the
  time that elapsed nor a status.
\<close>

theorem wait_timeout_error:
  assumes "\<forall>k. \<exists>task. fetch env k = Inr task \<and> \<not> isTerminal (status task)"
    and "timeout = (case options of
                      None \<Rightarrow> 600000
                    | Some opts \<Rightarrow> (case timeoutMs opts of None \<Rightarrow> 600000 | Some v \<Rightarrow> v))"
  shows "waitOutcome (waitForCompletion env date_now tid options)
           = Inl \<lparr>errName = ''TimeoutError'',
                  errMessage = ''Task '' @ tid @ '' did not reach a terminal state within ''
                               @ numToString timeout @ ''ms'',
                  errCause = None, errStatusCode = None, errRequestId = None,
             errBody = None, errTimeoutMs = Some timeout\<rparr>"
  using wait_all_nonterminal_from[OF assms(1)]
  by (simp add: waitForCompletion_def Let_def assms(2) newTimeoutError_def)

text \<open>
  C7, counterexample.  Two waits with a timeout of 1000 ms, one that last saw
  \<open>assigned\<close> and gave up after 1100 ms, one that last saw \<open>submitted\<close> and gave up after
  1000 ms, throw the same error.
\<close>

theorem wait_timeout_error_counterexample:
  "waitForCompletion
     \<lparr>fetch = \<lambda>_. Inr \<lparr>taskId = ''t1'', status = TaskStatusAssigned\<rparr>,
      fetchMs = \<lambda>_. 350, oversleepMs = \<lambda>_. 0\<rparr>
     0 ''t1'' (Some \<lparr>pollIntervalMs = Some 400, timeoutMs = Some 1000\<rparr>)
   = \<lparr>waitOutcome =
        Inl \<lparr>errName = ''TimeoutError'',
             errMessage = ''Task t1 did not reach a terminal state within 1000ms'',
             errCause = None, errStatusCode = None, errRequestId = None,
             errBody = None, errTimeoutMs = Some 1000\<rparr>,
      finishedAt = 1100,
      observed = [TaskStatusAssigned, TaskStatusAssigned],
      timers = [400]\<rparr>
   \<and> waitForCompletion
     \<lparr>fetch = \<lambda>_. Inr \<lparr>taskId = ''t1'', status = TaskStatusSubmitted\<rparr>,
      fetchMs = \<lambda>_. 100, oversleepMs = \<lambda>_. 0\<rparr>
     0 ''t1'' (Some \<lparr>pollIntervalMs = Some 400, timeoutMs = Some 1000\<rparr>)
   = \<lparr>waitOutcome =
        Inl \<lparr>errName = ''TimeoutError'',
             errMessage = ''Task t1 did not reach a terminal state within 1000ms'',
             errCause = None, errStatusCode = None, errRequestId = None,
             errBody = None, errTimeoutMs = Some 1000\<rparr>,
      finishedAt = 1000,
      observed = [TaskStatusSubmitted, TaskStatusSubmitted],
      timers = [400, 400]\<rparr>"
  by (simp add: waitForCompletion_def waitForCompletion_from.simps Let_def isTerminal_def
      setTimeoutMs_def newTimeoutError_def numToString_def decDigits.simps digitChar_def
      char_of_eq_iff)

text \<open>
  C7, witness: a task that stays \<open>assigned\<close>, polled every 400 ms for 1000 ms.
\<close>

theorem wait_timeout_error_witness:
  "waitOutcome (waitForCompletion
     \<lparr>fetch = \<lambda>_. Inr \<lparr>taskId = ''t1'', status = TaskStatusAssigned\<rparr>,
      fetchMs = \<lambda>_. 350, oversleepMs = \<lambda>_. 0\<rparr>
     0 ''t1'' (Some \<lparr>pollIntervalMs = Some 400, timeoutMs = Some 1000\<rparr>))
   = Inl \<lparr>errName = ''TimeoutError'',
          errMessage = ''Task '' @ ''t1'' @ '' did not reach a terminal state within ''
                       @ numToString 1000 @ ''ms'',
          errCause = None, errStatusCode = None, errRequestId = None,
             errBody = None, errTimeoutMs = Some 1000\<rparr>"
  by (rule wait_timeout_error) (simp_all add: isTerminal_def)


section \<open>Idempotency keys\<close>

lemma length_hexEncode: "length (hexEncode bs) = 2 * length bs"
  by (induction bs) (simp_all add: hexEncode_def hexByte_def)

lemma hexEncode_take: "hexEncode (take n bs) = take (2 * n) (hexEncode bs)"
proof (induction bs arbitrary: n)
  case Nil
  show ?case by (simp add: hexEncode_def)
next
  case (Cons b bs)
  show ?case
  proof (cases n)
    case 0
    then show ?thesis by (simp add: hexEncode_def)
  next
    case (Suc m)
    have "hexEncode (take m bs) = take (2 * m) (hexEncode bs)" by (rule Cons.IH)
    then show ?thesis
      using Suc by (simp add: hexEncode_def hexByte_def)
  qed
qed

lemma hexEncode_inject: "hexEncode xs = hexEncode ys \<longleftrightarrow> xs = ys"
proof
  assume "hexEncode xs = hexEncode ys"
  then have "bufferFromHex (hexEncode xs) = bufferFromHex (hexEncode ys)" by simp
  then show "xs = ys" by (simp only: bufferFromHex_hexEncode)
qed simp

lemma key_hash_part:
  "take 32 (hexEncode (digestBytes w)) = hexEncode (take 16 (digestBytes w))"
  using hexEncode_take[of 16 "digestBytes w"] by simp

lemma length_key_hash_part: "length (hexEncode (take 16 (digestBytes w))) = 32"
  by (simp add: length_hexEncode length_digestBytes)

text \<open>
  C9 (amended).  The key is the namespace, a colon, and the first 32 hex digits of the
  SHA-256 digest of the parts joined with colons (in Go: the first 16 bytes printed in
  hex, the same string).  Two inputs get the same key exactly when their namespaces are
  equal and the digests of their joined strings agree in the first 16 bytes: inputs
  whose joined strings differ get different keys unless SHA-256 collides on its first
  128 bits, and inputs whose parts differ but join to the same string get the same
  key.
\<close>

theorem idempotency_key_derivation:
  "generateIdempotencyKey sha256 ns parts
     = ns @ '':'' @ take 32 (hexEncode (digestBytes (sha256 (join '':'' parts))))
   \<and> length (take 32 (hexEncode (digestBytes (sha256 (join '':'' parts))))) = 32
   \<and> GenerateIdempotencyKey sha256 ns parts = generateIdempotencyKey sha256 ns parts
   \<and> (generateIdempotencyKey sha256 ns parts = generateIdempotencyKey sha256 ns' parts'
        \<longleftrightarrow> ns = ns'
            \<and> take 16 (digestBytes (sha256 (join '':'' parts)))
                = take 16 (digestBytes (sha256 (join '':'' parts'))))"
proof -
  let ?h = "hexEncode (take 16 (digestBytes (sha256 (join '':'' parts))))"
  let ?h' = "hexEncode (take 16 (digestBytes (sha256 (join '':'' parts'))))"
  have k: "generateIdempotencyKey sha256 ns parts = ns @ CHR '':'' # ?h"
    and k': "generateIdempotencyKey sha256 ns' parts' = ns' @ CHR '':'' # ?h'"
    by (simp_all add: generateIdempotencyKey_def Let_def key_hash_part)
  have len: "length (CHR '':'' # ?h) = length (CHR '':'' # ?h')"
    by (simp add: length_key_hash_part)
  have "(ns @ CHR '':'' # ?h = ns' @ CHR '':'' # ?h') \<longleftrightarrow> (ns = ns' \<and> ?h = ?h')"
    using append_eq_append_conv[of "CHR '':'' # ?h" "CHR '':'' # ?h'" ns ns'] len by auto
  then have iff: "generateIdempotencyKey sha256 ns parts = generateIdempotencyKey sha256 ns' parts'
        \<longleftrightarrow> ns = ns'
            \<and> take 16 (digestBytes (sha256 (join '':'' parts)))
                = take 16 (digestBytes (sha256 (join '':'' parts')))"
    by (simp only: k k' hexEncode_inject)
  have rest: "generateIdempotencyKey sha256 ns parts
     = ns @ '':'' @ take 32 (hexEncode (digestBytes (sha256 (join '':'' parts))))
   \<and> length (take 32 (hexEncode (digestBytes (sha256 (join '':'' parts))))) = 32
   \<and> GenerateIdempotencyKey sha256 ns parts = generateIdempotencyKey sha256 ns parts"
    by (simp add: generateIdempotencyKey_def GenerateIdempotencyKey_def Let_def key_hash_part
        length_key_hash_part)
  from rest iff show ?thesis by blast
qed

text \<open>
  C9, counterexample.  The parts \<open>["a:b"]\<close> and \<open>["a", "b"]\<close> differ and get the same
  key, whatever the hash function.
\<close>

theorem idempotency_key_derivation_counterexample:
  "\<forall>sha256. [''a:b''] \<noteq> [''a'', ''b'']
     \<and> generateIdempotencyKey sha256 ''svc'' [''a:b'']
         = generateIdempotencyKey sha256 ''svc'' [''a'', ''b'']
     \<and> GenerateIdempotencyKey sha256 ''svc'' [''a:b'']
         = GenerateIdempotencyKey sha256 ''svc'' [''a'', ''b'']"
  by (simp add: generateIdempotencyKey_def GenerateIdempotencyKey_def)

text \<open>
  C9, witness: the parts \<open>["a:b"]\<close> and \<open>["a", "b"]\<close> in one namespace, and the
  same parts in two namespaces.
\<close>

theorem idempotency_key_derivation_witness:
  "\<forall>sha256.
       generateIdempotencyKey sha256 ''svc'' [''a:b'']
         = generateIdempotencyKey sha256 ''svc'' [''a'', ''b'']
     \<and> generateIdempotencyKey sha256 ''svc'' [''a'', ''b'']
         \<noteq> generateIdempotencyKey sha256 ''svc2'' [''a'', ''b'']"
proof
  fix sha256 :: hash_fn
  note a = idempotency_key_derivation[of sha256 "''svc''" "[''a:b'']" "''svc''" "[''a'', ''b'']",
      THEN conjunct2, THEN conjunct2, THEN conjunct2]
  note b = idempotency_key_derivation[of sha256 "''svc''" "[''a'', ''b'']" "''svc2''"
      "[''a'', ''b'']", THEN conjunct2, THEN conjunct2, THEN conjunct2]
  have 1: "generateIdempotencyKey sha256 ''svc'' [''a:b'']
         = generateIdempotencyKey sha256 ''svc'' [''a'', ''b'']"
    by (rule iffD2[OF a]) simp
  have 2: "generateIdempotencyKey sha256 ''svc'' [''a'', ''b'']
         \<noteq> generateIdempotencyKey sha256 ''svc2'' [''a'', ''b'']"
  proof
    assume "generateIdempotencyKey sha256 ''svc'' [''a'', ''b'']
         = generateIdempotencyKey sha256 ''svc2'' [''a'', ''b'']"
    from iffD1[OF b this] show False by simp
  qed
  from 1 2 show "generateIdempotencyKey sha256 ''svc'' [''a:b'']
         = generateIdempotencyKey sha256 ''svc'' [''a'', ''b'']
     \<and> generateIdempotencyKey sha256 ''svc'' [''a'', ''b'']
         \<noteq> generateIdempotencyKey sha256 ''svc2'' [''a'', ''b'']"
    by (rule conjI)
qed

end
